theory Spec2Isabelle
  imports Complex_Main
begin

section \<open>JavaScript values used by the pipeline\<close>

text \<open>
  The repository is JavaScript. Strings are modelled as \<open>string\<close>, arrays as lists,
  a \<open>Set\<close> and a \<open>Map\<close> as lists in insertion order (both iterate in insertion
  order), plain objects used as dictionaries as maps, numbers that only get compared or
  multiplied as \<open>real\<close>. A thrown exception is the \<open>Inl\<close> branch of a sum whose
  payload is the error message.
\<close>

type_synonym error = string

text \<open>\<open>new Set(xs)\<close> followed by a spread: the elements in order of first occurrence.\<close>

definition set_add :: "'a list \<Rightarrow> 'a \<Rightarrow> 'a list" where
  "set_add s x = (if x \<in> set s then s else s @ [x])"

definition js_unique :: "'a list \<Rightarrow> 'a list" where
  "js_unique xs = foldl set_add [] xs"

text \<open>\<open>Array.prototype.indexOf\<close>: the index of the first occurrence, \<open>-1\<close> as \<open>None\<close>.\<close>

fun indexOf :: "'a list \<Rightarrow> 'a \<Rightarrow> nat option" where
  "indexOf [] x = None"
| "indexOf (y # ys) x = (if y = x then Some 0 else map_option Suc (indexOf ys x))"

text \<open>\<open>String.prototype.split\<close> with a one-character separator.\<close>

fun js_split :: "char \<Rightarrow> string \<Rightarrow> string list" where
  "js_split sep [] = ['''']"
| "js_split sep (c # cs) =
     (if c = sep then [] # js_split sep cs
      else (case js_split sep cs of
              [] \<Rightarrow> [c # '''']
            | w # ws \<Rightarrow> (c # w) # ws))"

text \<open>\<open>String.prototype.includes\<close>: the argument occurs as a contiguous substring.\<close>

fun starts_with :: "string \<Rightarrow> string \<Rightarrow> bool" where
  "starts_with s [] = True"
| "starts_with [] (p # ps) = False"
| "starts_with (c # cs) (p # ps) = (c = p \<and> starts_with cs ps)"

fun js_includes :: "string \<Rightarrow> string \<Rightarrow> bool" where
  "js_includes [] p = (p = [])"
| "js_includes (c # cs) p = (starts_with (c # cs) p \<or> js_includes cs p)"

text \<open>\<open>a || d\<close> on an optional number: \<open>undefined\<close> and \<open>0\<close> are both falsy.\<close>

definition or_default :: "real option \<Rightarrow> real \<Rightarrow> real" where
  "or_default a d = (case a of None \<Rightarrow> d | Some x \<Rightarrow> if x = 0 then d else x)"

text \<open>
  Builtins of the platform whose code is outside the repository are parameters of the
  model: \<open>String.prototype.toLowerCase\<close>, \<open>String.prototype.trim\<close>,
  \<open>path.extname\<close>, \<open>path.resolve\<close> against the repository path (the identity in
  the variant of the analyzer that keeps relative paths), \<open>git show\<close>, the tree-sitter
  parsers that initialised successfully, \<open>minimatch\<close>, \<open>glob\<close>, reading a file,
  the annotation regular expressions, the regular-expression based helpers of the symbol
  strategy, the \<open>RegExp\<close> test of the test matcher, \<open>path.sep\<close>, \<open>path.join\<close>,
  the git queries of the analyzer (\<open>checkIsRepo\<close>, \<open>revparse\<close>, \<open>diffSummary\<close> with
  its files and its total insertions and deletions, the last commit of the past day) and
  the AI provider, which receives the three lists its prompt is built from and answers with
  an optional confidence and a reasoning. \<open>None\<close> or \<open>Inl\<close> is a call that throws.
\<close>

datatype SyntaxNode = SyntaxNode (nodeType: string) (nodeText: string) (nodeChildren: "SyntaxNode list")

text \<open>One entry of the diff summary of the version-control collaborator.\<close>

record FileSummary =
  summaryFile :: string
  summaryOldPath :: "string option"
  insertions :: nat
  deletions :: nat
  binary :: bool

record platform =
  toLowerCase :: "string \<Rightarrow> string"
  trim :: "string \<Rightarrow> string"
  extname :: "string \<Rightarrow> string"
  resolvePath :: "string \<Rightarrow> string"
  gitShow :: "string \<Rightarrow> string \<Rightarrow> string option"
  parsers :: "string \<Rightarrow> (string \<Rightarrow> error + SyntaxNode) option"
  minimatch :: "string \<Rightarrow> string \<Rightarrow> error + bool"
  glob :: "string \<Rightarrow> string list option"
  readFile :: "string \<Rightarrow> string option"
  annotationMatches :: "string \<Rightarrow> string list"
  extractFeatureFromSymbol :: "string \<Rightarrow> string"
  extractFeatureFromPath :: "string \<Rightarrow> string"
  regexTest :: "string \<Rightarrow> string \<Rightarrow> error + bool"
  pathSep :: char
  pathJoin :: "string \<Rightarrow> string \<Rightarrow> string"
  checkIsRepo :: "error + bool"
  revparse :: "string \<Rightarrow> error + string"
  gitDiffSummary :: "string \<Rightarrow> string \<Rightarrow> error + (FileSummary list \<times> nat \<times> nat)"
  getLastCommitWithin24Hours :: "error + string option"
  analyzeImpact :: "string list \<Rightarrow> string list \<Rightarrow> string list \<Rightarrow> error + (real option \<times> string)"

section \<open>Diff analysis (git-analyzer.js)\<close>

datatype ChangeType = ADDED | MODIFIED | DELETED | RENAMED

record CodeChange =
  filePath :: string
  changeType :: ChangeType
  oldPath :: "string option"
  linesAdded :: nat
  linesRemoved :: nat
  functionsChanged :: "string list"
  classesChanged :: "string list"
  importsChanged :: "string list"

definition LANGUAGE_EXTENSIONS :: "(string \<times> string) list" where
  "LANGUAGE_EXTENSIONS =
     [(''.js'', ''javascript''), (''.jsx'', ''javascript''), (''.ts'', ''typescript''),
      (''.tsx'', ''typescript''), (''.py'', ''python''), (''.json'', ''json''),
      (''.yaml'', ''yaml''), (''.yml'', ''yaml''), (''.md'', ''markdown''),
      (''.html'', ''html''), (''.css'', ''css''), (''.scss'', ''scss''),
      (''.sass'', ''sass'')]"

definition detectLanguage :: "platform \<Rightarrow> string \<Rightarrow> string option" where
  "detectLanguage env path = map_of LANGUAGE_EXTENSIONS (toLowerCase env (extname env path))"

text \<open>\<open>walkTree\<close> calls its callback on every node, parents before children, children
  from left to right; the model returns the nodes in the order of the calls.\<close>

fun walkTree :: "SyntaxNode \<Rightarrow> SyntaxNode list" where
  "walkTree (SyntaxNode t s cs) = SyntaxNode t s cs # concat (map walkTree cs)"

definition functionTypes :: "(string \<times> string list) list" where
  "functionTypes =
     [(''javascript'', [''function_declaration'', ''arrow_function'', ''method_definition'']),
      (''typescript'', [''function_declaration'', ''arrow_function'', ''method_definition'']),
      (''python'', [''function_definition''])]"

definition classTypes :: "(string \<times> string list) list" where
  "classTypes =
     [(''javascript'', [''class_declaration'']),
      (''typescript'', [''class_declaration'']),
      (''python'', [''class_definition''])]"

definition importTypes :: "(string \<times> string list) list" where
  "importTypes =
     [(''javascript'', [''import_statement'']),
      (''typescript'', [''import_statement'']),
      (''python'', [''import_statement'', ''import_from_statement''])]"

definition isKind :: "(string \<times> string list) list \<Rightarrow> SyntaxNode \<Rightarrow> string \<Rightarrow> bool" where
  "isKind table node language =
     (case map_of table language of None \<Rightarrow> False | Some kinds \<Rightarrow> nodeType node \<in> set kinds)"

definition isFunctionNode :: "SyntaxNode \<Rightarrow> string \<Rightarrow> bool" where
  "isFunctionNode node language = isKind functionTypes node language"

definition isClassNode :: "SyntaxNode \<Rightarrow> string \<Rightarrow> bool" where
  "isClassNode node language = isKind classTypes node language"

definition isImportNode :: "SyntaxNode \<Rightarrow> string \<Rightarrow> bool" where
  "isImportNode node language = isKind importTypes node language"

text \<open>The text of the first direct child of type \<open>identifier\<close>, \<open>null\<close> as \<open>None\<close>.\<close>

definition extractNodeName :: "SyntaxNode \<Rightarrow> string \<Rightarrow> string option" where
  "extractNodeName node language =
     map_option nodeText (find (\<lambda>child. nodeType child = ''identifier'') (nodeChildren node))"

text \<open>\<open>if (name) names.push(name)\<close>: \<open>null\<close> and the empty string are falsy.\<close>

definition pushName :: "string list \<Rightarrow> string option \<Rightarrow> string list" where
  "pushName names name =
     (case name of None \<Rightarrow> names | Some n \<Rightarrow> if n = [] then names else names @ [n])"

definition getFunctionQuery :: "string \<Rightarrow> string option" where
  "getFunctionQuery language = None"

definition extractFunctions :: "SyntaxNode \<Rightarrow> string \<Rightarrow> string list" where
  "extractFunctions tree language =
     (case getFunctionQuery language of
        None \<Rightarrow> []
      | Some query \<Rightarrow>
          foldl (\<lambda>functions node.
                   if isFunctionNode node language
                   then pushName functions (extractNodeName node language)
                   else functions)
                [] (walkTree tree))"

definition extractClasses :: "SyntaxNode \<Rightarrow> string \<Rightarrow> string list" where
  "extractClasses tree language =
     foldl (\<lambda>classes node.
              if isClassNode node language
              then pushName classes (extractNodeName node language)
              else classes)
           [] (walkTree tree)"

definition extractImports :: "platform \<Rightarrow> SyntaxNode \<Rightarrow> string \<Rightarrow> string list" where
  "extractImports env tree language =
     foldl (\<lambda>imports node.
              if isImportNode node language \<and> nodeText node \<noteq> []
              then imports @ [trim env (nodeText node)]
              else imports)
           [] (walkTree tree)"

text \<open>\<open>getFileContent(...).catch(() => '')\<close>.\<close>

definition getFileContent :: "platform \<Rightarrow> string \<Rightarrow> string \<Rightarrow> string" where
  "getFileContent env path commit = (case gitShow env commit path of None \<Rightarrow> [] | Some c \<Rightarrow> c)"

text \<open>\<open>content ? parser.parse(content) : null\<close>; a parser that throws is \<open>Inl\<close>.\<close>

definition parseContent ::
  "(string \<Rightarrow> error + SyntaxNode) \<Rightarrow> string \<Rightarrow> error + SyntaxNode option" where
  "parseContent parser content =
     (if content = [] then Inr None
      else (case parser content of Inl e \<Rightarrow> Inl e | Inr t \<Rightarrow> Inr (Some t)))"

text \<open>The change record is mutated in place; the model returns the updated record. Both
  exits of the \<open>try\<close> block that do not reach the assignments leave it as it was.\<close>

definition performSyntaxAnalysis ::
  "platform \<Rightarrow> CodeChange \<Rightarrow> string \<Rightarrow> string \<Rightarrow> CodeChange" where
  "performSyntaxAnalysis env change baseCommit headCommit =
     (case detectLanguage env (filePath change) of
        None \<Rightarrow> change
      | Some language \<Rightarrow>
          (case parsers env language of
             None \<Rightarrow> change
           | Some parser \<Rightarrow>
               (let oldContent = getFileContent env (filePath change) baseCommit;
                    newContent = getFileContent env (filePath change) headCommit
                in case parseContent parser oldContent of
                     Inl e \<Rightarrow> change
                   | Inr oldTree \<Rightarrow>
                       (case parseContent parser newContent of
                          Inl e \<Rightarrow> change
                        | Inr None \<Rightarrow> change
                        | Inr (Some newTree) \<Rightarrow>
                            change\<lparr>functionsChanged := extractFunctions newTree language,
                                   classesChanged := extractClasses newTree language,
                                   importsChanged := extractImports env newTree language\<rparr>))))"

text \<open>\<open>analyzeFileChange\<close> exists in two variants with the same classification. The
  model follows the one the engine constructs, which stores resolved paths and the old
  path of the summary; the other one is the instance where \<open>resolvePath\<close> is the
  identity and the summary has no old path.\<close>

definition analyzeFileChange ::
  "platform \<Rightarrow> FileSummary \<Rightarrow> string \<Rightarrow> string \<Rightarrow> CodeChange" where
  "analyzeFileChange env fileSummary baseCommit headCommit =
     (let kind =
            (if binary fileSummary then MODIFIED
             else if insertions fileSummary > 0 \<and> deletions fileSummary = 0 then ADDED
             else if insertions fileSummary = 0 \<and> deletions fileSummary > 0 then DELETED
             else MODIFIED);
          change = \<lparr>filePath = resolvePath env (summaryFile fileSummary),
                    changeType = kind,
                    oldPath = map_option (resolvePath env) (summaryOldPath fileSummary),
                    linesAdded = insertions fileSummary,
                    linesRemoved = deletions fileSummary,
                    functionsChanged = [],
                    classesChanged = [],
                    importsChanged = []\<rparr>
      in if \<not> binary fileSummary \<and> kind \<noteq> DELETED
         then performSyntaxAnalysis env change baseCommit headCommit
         else change)"

record DiffAnalysisResult =
  baseCommit :: string
  headCommit :: string
  changes :: "CodeChange list"
  totalFilesChanged :: nat
  totalLinesAdded :: nat
  totalLinesRemoved :: nat
  languagesAffected :: "string list"

definition resolveRef :: "platform \<Rightarrow> string \<Rightarrow> error + string" where
  "resolveRef env ref =
     (case revparse env ref of
        Inl e \<Rightarrow> Inl (''Failed to resolve reference '' @ [CHR 0x27] @ ref @ [CHR 0x27] @ '': '' @ e)
      | Inr result \<Rightarrow> Inr (trim env result))"

definition validateRepository :: "platform \<Rightarrow> error + unit" where
  "validateRepository env =
     (case checkIsRepo env of Inl e \<Rightarrow> Inl ''Not a git repository'' | Inr b \<Rightarrow> Inr ())"

definition analyzeDiff :: "platform \<Rightarrow> string \<Rightarrow> string \<Rightarrow> error + DiffAnalysisResult" where
  "analyzeDiff env baseRef headRef =
     (case validateRepository env of
        Inl e \<Rightarrow> Inl e
      | Inr u \<Rightarrow>
     (case resolveRef env baseRef of
        Inl e \<Rightarrow> Inl e
      | Inr baseSha \<Rightarrow>
     (case resolveRef env headRef of
        Inl e \<Rightarrow> Inl e
      | Inr headSha \<Rightarrow>
     (case gitDiffSummary env baseSha headSha of
        Inl e \<Rightarrow> Inl e
      | Inr (files, totalInsertions, totalDeletions) \<Rightarrow>
          (let analyzed = map (\<lambda>f. analyzeFileChange env f baseSha headSha) files;
               languages =
                 foldl (\<lambda>acc change.
                          case detectLanguage env (filePath change) of
                            None \<Rightarrow> acc
                          | Some language \<Rightarrow> set_add acc language)
                       [] analyzed
           in Inr \<lparr>baseCommit = baseSha,
                    headCommit = headSha,
                    changes = analyzed,
                    totalFilesChanged = length files,
                    totalLinesAdded = totalInsertions,
                    totalLinesRemoved = totalDeletions,
                    languagesAffected = languages\<rparr>)))))"

section \<open>Feature mapping (feature-mapper.js)\<close>

definition FOLDER_BASED :: string where "FOLDER_BASED = ''folder_based''"
definition FILE_BASED :: string where "FILE_BASED = ''file_based''"
definition ANNOTATION_BASED :: string where "ANNOTATION_BASED = ''annotation_based''"
definition AST_BASED :: string where "AST_BASED = ''ast_based''"

text \<open>Metadata objects hold arbitrary configuration values and, for the symbol
  strategy, an array of strings.\<close>

datatype jsvalue =
  JNull | JBool bool | JNumber real | JString string
  | JArray "jsvalue list" | JObject "(string \<times> jsvalue) list"

record ImpactedFeature =
  featureName :: string
  confidence :: real
  impactedFiles :: "string list"
  testFiles :: "string list"
  changeSummary :: string
  strategyUsed :: string
  metadata :: "string \<rightharpoonup> jsvalue"

text \<open>An entry of \<open>config.features\<close>; a missing key is \<open>None\<close>.\<close>

record FeatureMappingConfig =
  source_patterns :: "string list option"
  test_patterns :: "string list option"
  mappingConfidence :: "real option"
  mappingMetadata :: "(string \<rightharpoonup> jsvalue) option"

text \<open>An entry of \<open>config.feature_detection.strategies\<close>.\<close>

record StrategyConfig =
  strategyType :: string
  enabled :: "bool option"
  configWeight :: "real option"

text \<open>The four strategy classes; each object carries the \<open>weight\<close> that the base
  constructor computes as \<open>config.weight || 1.0\<close>.\<close>

datatype Strategy =
  FolderBasedStrategy real | FileBasedStrategy real
  | AnnotationBasedStrategy real | ASTBasedStrategy real

definition baseWeight :: "StrategyConfig \<Rightarrow> real" where
  "baseWeight config = or_default (configWeight config) 1.0"

fun weight :: "Strategy \<Rightarrow> real" where
  "weight (FolderBasedStrategy w) = w"
| "weight (FileBasedStrategy w) = w"
| "weight (AnnotationBasedStrategy w) = w"
| "weight (ASTBasedStrategy w) = w"

text \<open>A \<open>Map\<close>: \<open>set\<close> on a present key replaces the value where it stands, on an
  absent key appends; \<open>get\<close> is \<open>map_of\<close>.\<close>

fun map_set :: "('k \<times> 'v) list \<Rightarrow> 'k \<Rightarrow> 'v \<Rightarrow> ('k \<times> 'v) list" where
  "map_set [] k v = [(k, v)]"
| "map_set ((k', v') # m) k v =
     (if k' = k then (k, v) # m else (k', v') # map_set m k v)"

text \<open>The patterns are tried against all the matches of every pattern; a \<open>glob\<close> call
  that throws is skipped; the result is made unique.\<close>

definition globAll :: "platform \<Rightarrow> string list \<Rightarrow> string list" where
  "globAll env patterns =
     js_unique (concat (map (\<lambda>pattern. case glob env pattern of None \<Rightarrow> [] | Some ms \<Rightarrow> ms)
                            patterns))"

subsection \<open>Folder-based strategy\<close>

definition afterSegment :: "string list \<Rightarrow> string \<Rightarrow> string option" where
  "afterSegment parts anchor =
     (case indexOf parts anchor of
        None \<Rightarrow> None
      | Some i \<Rightarrow> if length parts > i + 1 then Some (parts ! (i + 1)) else None)"

definition extractFeaturesFromPath :: "platform \<Rightarrow> string list \<Rightarrow> string list" where
  "extractFeaturesFromPath env parts =
     (let patterns =
            [afterSegment parts ''features'',
             (if length parts \<ge> 2 \<and> parts ! 0 = ''src'' then Some (parts ! 1) else None),
             map_option (toLowerCase env) (afterSegment parts ''components'')]
      in foldl (\<lambda>features feature.
                  case feature of
                    None \<Rightarrow> features
                  | Some f \<Rightarrow> if f = [] then features else set_add features f)
               [] patterns)"

definition testDirs :: "string list" where
  "testDirs = [''tests'', ''test'', ''__tests__'', ''spec'', ''e2e'']"

definition findTestFiles :: "platform \<Rightarrow> string \<Rightarrow> string \<Rightarrow> string list" where
  "findTestFiles env name sourcePath =
     globAll env
       (concat (map (\<lambda>testDir.
                       [testDir @ ''/**/'' @ name @ ''*.{test,spec}.{js,ts}'',
                        testDir @ ''/**/*'' @ name @ ''*.{test,spec}.{js,ts}'',
                        testDir @ ''/'' @ name @ ''/**/*.{test,spec}.{js,ts}''])
                    testDirs))"

definition folderBasedChange :: "platform \<Rightarrow> real \<Rightarrow> CodeChange \<Rightarrow> ImpactedFeature list" where
  "folderBasedChange env w change =
     concat (map (\<lambda>name.
                    (let tests = findTestFiles env name (filePath change)
                     in if length tests > 0
                        then [\<lparr>featureName = name,
                               confidence = w * 0.8,
                               impactedFiles = [filePath change],
                               testFiles = tests,
                               changeSummary = ''Changes in '' @ name @ '' module'',
                               strategyUsed = FOLDER_BASED,
                               metadata = Map.empty\<rparr>]
                        else []))
                 (extractFeaturesFromPath env (js_split (pathSep env) (filePath change))))"

subsection \<open>File-based strategy\<close>

definition or_empty :: "'a list option \<Rightarrow> 'a list" where
  "or_empty xs = (case xs of None \<Rightarrow> [] | Some ys \<Rightarrow> ys)"

text \<open>\<open>patterns.some(pattern => minimatch(filePath, pattern))\<close> stops at the first
  match; a \<open>minimatch\<close> call that throws before it ends the whole strategy.\<close>

fun matchesPatterns :: "platform \<Rightarrow> string \<Rightarrow> string list \<Rightarrow> error + bool" where
  "matchesPatterns env path [] = Inr False"
| "matchesPatterns env path (pattern # patterns) =
     (case minimatch env path pattern of
        Inl e \<Rightarrow> Inl e
      | Inr True \<Rightarrow> Inr True
      | Inr False \<Rightarrow> matchesPatterns env path patterns)"

definition resolveTestPatterns :: "platform \<Rightarrow> string list \<Rightarrow> string list" where
  "resolveTestPatterns env patterns = globAll env patterns"

fun fileBasedMappings ::
  "platform \<Rightarrow> real \<Rightarrow> string \<Rightarrow> (string \<times> FeatureMappingConfig) list \<Rightarrow> error + ImpactedFeature list" where
  "fileBasedMappings env w path [] = Inr []"
| "fileBasedMappings env w path ((name, mapping) # rest) =
     (case matchesPatterns env path (or_empty (source_patterns mapping)) of
        Inl e \<Rightarrow> Inl e
      | Inr matched \<Rightarrow>
          (case fileBasedMappings env w path rest of
             Inl e \<Rightarrow> Inl e
           | Inr features \<Rightarrow>
               Inr ((if matched
                     then [\<lparr>featureName = name,
                            confidence = w * or_default (mappingConfidence mapping) 1.0,
                            impactedFiles = [path],
                            testFiles = resolveTestPatterns env (or_empty (test_patterns mapping)),
                            changeSummary = ''Changes in '' @ name @ '' feature'',
                            strategyUsed = FILE_BASED,
                            metadata = (case mappingMetadata mapping of
                                          None \<Rightarrow> Map.empty | Some m \<Rightarrow> m)\<rparr>]
                     else []) @ features)))"

fun fileBasedChanges ::
  "platform \<Rightarrow> real \<Rightarrow> CodeChange list \<Rightarrow> (string \<times> FeatureMappingConfig) list \<Rightarrow> error + ImpactedFeature list" where
  "fileBasedChanges env w [] existingMappings = Inr []"
| "fileBasedChanges env w (change # rest) existingMappings =
     (case fileBasedMappings env w (filePath change) existingMappings of
        Inl e \<Rightarrow> Inl e
      | Inr features \<Rightarrow>
          (case fileBasedChanges env w rest existingMappings of
             Inl e \<Rightarrow> Inl e
           | Inr others \<Rightarrow> Inr (features @ others)))"

subsection \<open>Annotation-based strategy\<close>

text \<open>The lower-cased captures of the annotation patterns, as a \<open>Set\<close>.\<close>

definition extractAnnotations :: "platform \<Rightarrow> string \<Rightarrow> string list" where
  "extractAnnotations env content =
     js_unique (map (toLowerCase env) (annotationMatches env content))"

definition findTestFilesForFeature :: "platform \<Rightarrow> string \<Rightarrow> string list" where
  "findTestFilesForFeature env name =
     globAll env
       [''tests/**/*'' @ name @ ''*.{test,spec}.{js,ts}'',
        ''test/**/*'' @ name @ ''*.{test,spec}.{js,ts}'',
        ''__tests__/**/*'' @ name @ ''*.{test,spec}.{js,ts}'']"

text \<open>A file that cannot be read is skipped by the \<open>catch\<close> inside the loop.\<close>

definition annotationBasedChange :: "platform \<Rightarrow> real \<Rightarrow> CodeChange \<Rightarrow> ImpactedFeature list" where
  "annotationBasedChange env w change =
     (if changeType change = DELETED then []
      else (case readFile env (filePath change) of
              None \<Rightarrow> []
            | Some content \<Rightarrow>
                map (\<lambda>name.
                       \<lparr>featureName = name,
                        confidence = w * 0.9,
                        impactedFiles = [filePath change],
                        testFiles = findTestFilesForFeature env name,
                        changeSummary = ''Annotated feature: '' @ name,
                        strategyUsed = ANNOTATION_BASED,
                        metadata = Map.empty\<rparr>)
                    (extractAnnotations env content)))"

subsection \<open>Symbol-based strategy\<close>

fun js_join :: "string \<Rightarrow> string list \<Rightarrow> string" where
  "js_join sep [] = []"
| "js_join sep [x] = x"
| "js_join sep (x # y # ys) = x @ sep @ js_join sep (y # ys)"

definition mapSymbolsToFeatures :: "platform \<Rightarrow> string list \<Rightarrow> string \<Rightarrow> string list" where
  "mapSymbolsToFeatures env symbols path =
     (let fromSymbols =
            foldl (\<lambda>acc symbol.
                     (let name = extractFeatureFromSymbol env symbol
                      in if name \<noteq> [] then set_add acc name else acc))
                  [] symbols;
          pathFeature = extractFeatureFromPath env path
      in if pathFeature \<noteq> [] then set_add fromSymbols pathFeature else fromSymbols)"

definition findTestsForSymbols :: "platform \<Rightarrow> string list \<Rightarrow> string \<Rightarrow> string list" where
  "findTestsForSymbols env symbols name =
     globAll env
       (concat (map (\<lambda>symbol.
                       [''tests/**/*'' @ symbol @ ''*.{test,spec}.{js,ts}'',
                        ''test/**/*'' @ symbol @ ''*.{test,spec}.{js,ts}'',
                        ''tests/**/*'' @ name @ ''*.{test,spec}.{js,ts}''])
                    symbols))"

definition astBasedChange :: "platform \<Rightarrow> real \<Rightarrow> CodeChange \<Rightarrow> ImpactedFeature list" where
  "astBasedChange env w change =
     (let changedSymbols = functionsChanged change @ classesChanged change
      in if length changedSymbols > 0
         then map (\<lambda>name.
                     \<lparr>featureName = name,
                      confidence = w * 0.7,
                      impactedFiles = [filePath change],
                      testFiles = findTestsForSymbols env changedSymbols name,
                      changeSummary = ''Symbol changes: '' @ js_join '', '' changedSymbols,
                      strategyUsed = AST_BASED,
                      metadata = [''changedSymbols'' \<mapsto> JArray (map JString changedSymbols)]\<rparr>)
                  (mapSymbolsToFeatures env changedSymbols (filePath change))
         else [])"

subsection \<open>The strategies of a mapper\<close>

type_synonym mappings = "(string \<times> FeatureMappingConfig) list"

type_synonym strategyMethod =
  "DiffAnalysisResult \<Rightarrow> mappings \<Rightarrow> error + ImpactedFeature list"

text \<open>The method \<open>mapChangesToFeatures\<close> of each strategy class.\<close>

fun strategyMapChangesToFeatures :: "platform \<Rightarrow> Strategy \<Rightarrow> strategyMethod" where
  "strategyMapChangesToFeatures env (FolderBasedStrategy w) diffResult existingMappings =
     Inr (concat (map (folderBasedChange env w) (changes diffResult)))"
| "strategyMapChangesToFeatures env (FileBasedStrategy w) diffResult existingMappings =
     fileBasedChanges env w (changes diffResult) existingMappings"
| "strategyMapChangesToFeatures env (AnnotationBasedStrategy w) diffResult existingMappings =
     Inr (concat (map (annotationBasedChange env w) (changes diffResult)))"
| "strategyMapChangesToFeatures env (ASTBasedStrategy w) diffResult existingMappings =
     Inr (concat (map (astBasedChange env w) (changes diffResult)))"

definition newStrategy :: "StrategyConfig \<Rightarrow> Strategy option" where
  "newStrategy config =
     (if strategyType config = FOLDER_BASED then Some (FolderBasedStrategy (baseWeight config))
      else if strategyType config = FILE_BASED then Some (FileBasedStrategy (baseWeight config))
      else if strategyType config = ANNOTATION_BASED
        then Some (AnnotationBasedStrategy (baseWeight config))
      else if strategyType config = AST_BASED then Some (ASTBasedStrategy (baseWeight config))
      else None)"

text \<open>Disabled entries and entries of unknown type are skipped; the strategies are kept
  in a \<open>Map\<close> keyed by type.\<close>

definition registerStrategy ::
  "(string \<times> Strategy) list \<Rightarrow> StrategyConfig \<Rightarrow> (string \<times> Strategy) list" where
  "registerStrategy strategies config =
     (if enabled config \<noteq> Some True then strategies
      else (case newStrategy config of
              None \<Rightarrow> strategies
            | Some s \<Rightarrow> map_set strategies (strategyType config) s))"

definition initializeStrategies :: "StrategyConfig list \<Rightarrow> (string \<times> Strategy) list" where
  "initializeStrategies strategyConfigs = foldl registerStrategy [] strategyConfigs"

subsection \<open>Aggregation\<close>

text \<open>The diagnostics of the mapper: the entries it logs at level \<open>warn\<close>, with their
  fields.\<close>

datatype LogEntry = Warn string "(string \<times> string) list"

text \<open>The body of the branch \<open>allFeatures.has(key)\<close>: the stored object is updated in
  place.\<close>

definition mergeFeature :: "ImpactedFeature \<Rightarrow> ImpactedFeature \<Rightarrow> ImpactedFeature" where
  "mergeFeature existing feature =
     existing\<lparr>confidence := max (confidence existing) (confidence feature),
              impactedFiles := js_unique (impactedFiles existing @ impactedFiles feature),
              testFiles := js_unique (testFiles existing @ testFiles feature),
              metadata := metadata existing ++ metadata feature\<rparr>"

definition addFeature ::
  "(string \<times> ImpactedFeature) list \<Rightarrow> ImpactedFeature \<Rightarrow> (string \<times> ImpactedFeature) list" where
  "addFeature allFeatures feature =
     (let key = featureName feature
      in case map_of allFeatures key of
           Some existing \<Rightarrow> map_set allFeatures key (mergeFeature existing feature)
         | None \<Rightarrow> map_set allFeatures key feature)"

text \<open>\<open>Array.prototype.sort\<close> with a comparator is stable: an element goes before the
  first element the comparator does not put before it.\<close>

fun insertBy :: "('a \<Rightarrow> 'a \<Rightarrow> real) \<Rightarrow> 'a \<Rightarrow> 'a list \<Rightarrow> 'a list" where
  "insertBy cmp x [] = [x]"
| "insertBy cmp x (y # ys) = (if cmp x y \<le> 0 then x # y # ys else y # insertBy cmp x ys)"

definition js_sort :: "('a \<Rightarrow> 'a \<Rightarrow> real) \<Rightarrow> 'a list \<Rightarrow> 'a list" where
  "js_sort cmp xs = foldr (insertBy cmp) xs []"

text \<open>One iteration of the loop over the strategies: the call of the strategy and
  the merge of its results are inside one \<open>try\<close>, whose handler logs a warning.\<close>

definition applyStrategy ::
  "DiffAnalysisResult \<Rightarrow> mappings \<Rightarrow> LogEntry list \<times> (string \<times> ImpactedFeature) list
   \<Rightarrow> string \<times> strategyMethod \<Rightarrow> LogEntry list \<times> (string \<times> ImpactedFeature) list" where
  "applyStrategy diffResult existingMappings state entry =
     (case entry of (kind, strategy) \<Rightarrow>
      (case state of (logged, allFeatures) \<Rightarrow>
       (case strategy diffResult existingMappings of
          Inl e \<Rightarrow>
            (logged @ [Warn ''Strategy failed'' [(''strategyType'', kind), (''error'', e)]],
             allFeatures)
        | Inr found \<Rightarrow> (logged, foldl addFeature allFeatures found))))"

text \<open>\<open>FeatureMapper.mapChangesToFeatures\<close>, over the strategies of the mapper in the
  order of its \<open>Map\<close>. Every statement of the outer \<open>try\<close> block outside the loop is
  total, so the handler that rethrows is never entered and the function returns its
  diagnostics and its list.\<close>

definition mapChangesToFeatures ::
  "(string \<times> strategyMethod) list \<Rightarrow> mappings \<Rightarrow> DiffAnalysisResult option
   \<Rightarrow> LogEntry list \<times> ImpactedFeature list" where
  "mapChangesToFeatures strategies existingMappings diffResult =
     (case diffResult of
        None \<Rightarrow> ([Warn ''No diff result or changes provided'' []], [])
      | Some d \<Rightarrow>
          (case foldl (applyStrategy d existingMappings) ([], []) strategies of
             (logged, allFeatures) \<Rightarrow>
               (logged, js_sort (\<lambda>a b. confidence b - confidence a) (map snd allFeatures))))"

text \<open>The mapper built from a configuration: \<open>config.feature_detection?.strategies || []\<close>,
  \<open>config.features || {}\<close> in key order, and \<open>config.integrations?.playwright\<close> with
  the two keys the integration reads. The loader of config.js checks a configuration file
  against its schema, logs the violations and hands the configuration over as it is, so the
  record carries no bounds of its own.\<close>

record PlaywrightConfig =
  testDir :: "string option"
  testPatterns :: "string list option"

record TEOConfig =
  detectionStrategies :: "StrategyConfig list"
  configFeatures :: mappings
  playwrightConfig :: "PlaywrightConfig option"

definition mapperStrategies :: "platform \<Rightarrow> TEOConfig \<Rightarrow> (string \<times> strategyMethod) list" where
  "mapperStrategies env config =
     map (\<lambda>(kind, s). (kind, strategyMapChangesToFeatures env s))
         (initializeStrategies (detectionStrategies config))"

definition featureMapper ::
  "platform \<Rightarrow> TEOConfig \<Rightarrow> DiffAnalysisResult option \<Rightarrow> LogEntry list \<times> ImpactedFeature list" where
  "featureMapper env config diffResult =
     mapChangesToFeatures (mapperStrategies env config) (configFeatures config) diffResult"

section \<open>Test selection (playwright-integration.js, test-orchestrator.js)\<close>

text \<open>Numbers that come out of a division are IEEE doubles with their special values;
  on finite values the operations are taken exact.\<close>

datatype jsnumber = Num real | PosInfinity | NegInfinity | NaN

text \<open>\<open>a.length / b.length\<close>.\<close>

definition lengthRatio :: "nat \<Rightarrow> nat \<Rightarrow> jsnumber" where
  "lengthRatio a b =
     (if b = 0 then (if a = 0 then NaN else PosInfinity) else Num (real a / real b))"

fun js_sub :: "jsnumber \<Rightarrow> jsnumber \<Rightarrow> jsnumber" where
  "js_sub NaN y = NaN"
| "js_sub x NaN = NaN"
| "js_sub (Num a) (Num b) = Num (a - b)"
| "js_sub (Num a) PosInfinity = NegInfinity"
| "js_sub (Num a) NegInfinity = PosInfinity"
| "js_sub PosInfinity PosInfinity = NaN"
| "js_sub PosInfinity y = PosInfinity"
| "js_sub NegInfinity NegInfinity = NaN"
| "js_sub NegInfinity y = NegInfinity"

definition signed :: "bool \<Rightarrow> jsnumber" where
  "signed positive = (if positive then PosInfinity else NegInfinity)"

fun js_mul :: "jsnumber \<Rightarrow> jsnumber \<Rightarrow> jsnumber" where
  "js_mul NaN y = NaN"
| "js_mul x NaN = NaN"
| "js_mul (Num a) (Num b) = Num (a * b)"
| "js_mul (Num a) PosInfinity = (if a = 0 then NaN else signed (a > 0))"
| "js_mul (Num a) NegInfinity = (if a = 0 then NaN else signed (a < 0))"
| "js_mul PosInfinity (Num b) = (if b = 0 then NaN else signed (b > 0))"
| "js_mul NegInfinity (Num b) = (if b = 0 then NaN else signed (b < 0))"
| "js_mul PosInfinity PosInfinity = PosInfinity"
| "js_mul PosInfinity NegInfinity = NegInfinity"
| "js_mul NegInfinity PosInfinity = NegInfinity"
| "js_mul NegInfinity NegInfinity = PosInfinity"

definition roundHalfUp :: "real \<Rightarrow> int" where
  "roundHalfUp x = \<lfloor>x + 1 / 2\<rfloor>"

fun js_round :: "jsnumber \<Rightarrow> jsnumber" where
  "js_round (Num x) = Num (of_int (roundHalfUp x))"
| "js_round x = x"

text \<open>The \<open>reason\<close> of a selected test is a sentence built from the feature name and
  the rounded percentage; the model keeps the two.\<close>

record SelectedTest =
  path :: string
  feature :: string
  selectedConfidence :: real
  strategy :: string
  reason :: "string \<times> int"

record SelectionReason =
  reasonFeature :: string
  reasonConfidence :: real
  testsSelected :: nat
  reasonStrategy :: string

record SelectionSummary =
  totalAvailable :: nat
  totalSelected :: nat
  reductionPercentage :: jsnumber

record SelectionResult =
  selectedTests :: "SelectedTest list"
  selectionReasons :: "SelectionReason list"
  summary :: SelectionSummary

fun replaceStarStar :: "string \<Rightarrow> string" where
  "replaceStarStar (a # b # cs) =
     (if a = CHR ''*'' \<and> b = CHR ''*'' then ''.*'' @ replaceStarStar cs
      else a # replaceStarStar (b # cs))"
| "replaceStarStar cs = cs"

definition replaceChar :: "char \<Rightarrow> string \<Rightarrow> string \<Rightarrow> string" where
  "replaceChar c rep s = concat (map (\<lambda>x. if x = c then rep else [x]) s)"

definition globToRegex :: "string \<Rightarrow> string" where
  "globToRegex pattern =
     replaceChar CHR ''?'' ''.'' (replaceChar CHR ''*'' ''[^/]*'' (replaceStarStar pattern))"

text \<open>\<open>new RegExp(regexPattern, 'i').test(filePath)\<close>; an invalid pattern throws.\<close>

definition matchesPattern :: "platform \<Rightarrow> string \<Rightarrow> string \<Rightarrow> error + bool" where
  "matchesPattern env file pattern = regexTest env (globToRegex pattern) file"

fun filterMatching :: "platform \<Rightarrow> string \<Rightarrow> string list \<Rightarrow> error + string list" where
  "filterMatching env pattern [] = Inr []"
| "filterMatching env pattern (file # files) =
     (case matchesPattern env file pattern of
        Inl e \<Rightarrow> Inl e
      | Inr matched \<Rightarrow>
          (case filterMatching env pattern files of
             Inl e \<Rightarrow> Inl e
           | Inr ms \<Rightarrow> Inr (if matched then file # ms else ms)))"

fun matchHints :: "platform \<Rightarrow> string list \<Rightarrow> string list \<Rightarrow> error + string list" where
  "matchHints env files [] = Inr []"
| "matchHints env files (pattern # patterns) =
     (case filterMatching env pattern files of
        Inl e \<Rightarrow> Inl e
      | Inr ms \<Rightarrow>
          (case matchHints env files patterns of
             Inl e \<Rightarrow> Inl e
           | Inr others \<Rightarrow> Inr (ms @ others)))"

definition nameMatches :: "platform \<Rightarrow> string \<Rightarrow> string \<Rightarrow> bool" where
  "nameMatches env name file =
     (js_includes (toLowerCase env file) name
      \<or> js_includes (toLowerCase env file) (filter (\<lambda>c. c \<noteq> CHR ''_'' \<and> c \<noteq> CHR ''-'') name))"

definition matchTestsToFeature ::
  "platform \<Rightarrow> string list \<Rightarrow> ImpactedFeature \<Rightarrow> error + string list" where
  "matchTestsToFeature env files f =
     (case matchHints env files (testFiles f) of
        Inl e \<Rightarrow> Inl e
      | Inr hinted \<Rightarrow>
          Inr (js_unique
                 (if length hinted = 0
                  then filter (nameMatches env (toLowerCase env (featureName f))) files
                  else hinted)))"

text \<open>The inner loop body of \<open>selectTests\<close>: a test file is pushed unless an entry
  with its path is already selected.\<close>

definition claimTest :: "ImpactedFeature \<Rightarrow> SelectedTest list \<Rightarrow> string \<Rightarrow> SelectedTest list" where
  "claimTest f selected file =
     (if file \<in> set (map path selected) then selected
      else selected @
           [\<lparr>path = file,
             feature = featureName f,
             selectedConfidence = confidence f,
             strategy = strategyUsed f,
             reason = (featureName f, roundHalfUp (confidence f * 100))\<rparr>])"

fun selectLoop ::
  "platform \<Rightarrow> string list \<Rightarrow> ImpactedFeature list \<Rightarrow> SelectedTest list \<times> SelectionReason list
   \<Rightarrow> error + SelectedTest list \<times> SelectionReason list" where
  "selectLoop env files [] state = Inr state"
| "selectLoop env files (f # fs) (selected, reasons) =
     (case matchTestsToFeature env files f of
        Inl e \<Rightarrow> Inl e
      | Inr featureTests \<Rightarrow>
          selectLoop env files fs
            (foldl (claimTest f) selected featureTests,
             if length featureTests > 0
             then reasons @ [\<lparr>reasonFeature = featureName f,
                               reasonConfidence = confidence f,
                               testsSelected = length featureTests,
                               reasonStrategy = strategyUsed f\<rparr>]
             else reasons))"

definition selectTests ::
  "platform \<Rightarrow> string list \<Rightarrow> ImpactedFeature list \<Rightarrow> error + SelectionResult" where
  "selectTests env allTestFiles impactedFeatures =
     (case selectLoop env allTestFiles impactedFeatures ([], []) of
        Inl e \<Rightarrow> Inl (''Test selection failed: '' @ e)
      | Inr (selected, reasons) \<Rightarrow>
          Inr \<lparr>selectedTests = selected,
               selectionReasons = reasons,
               summary =
                 \<lparr>totalAvailable = length allTestFiles,
                  totalSelected = length selected,
                  reductionPercentage =
                    js_round (js_mul (js_sub (Num 1)
                                             (lengthRatio (length selected) (length allTestFiles)))
                                     (Num 100))\<rparr>\<rparr>)"

text \<open>The default \<open>sort()\<close> of an array of strings compares code units.\<close>

fun compareStrings :: "string \<Rightarrow> string \<Rightarrow> real" where
  "compareStrings [] [] = 0"
| "compareStrings [] (y # ys) = - 1"
| "compareStrings (x # xs) [] = 1"
| "compareStrings (x # xs) (y # ys) =
     (if (of_char x :: nat) < of_char y then - 1
      else if (of_char y :: nat) < of_char x then 1
      else compareStrings xs ys)"

text \<open>\<open>discoverTests\<close>: here a \<open>glob\<close> call that throws ends the discovery.\<close>

fun discoverPatterns :: "platform \<Rightarrow> string \<Rightarrow> string list \<Rightarrow> error + string list" where
  "discoverPatterns env dir [] = Inr []"
| "discoverPatterns env dir (pattern # patterns) =
     (case glob env (pathJoin env dir pattern) of
        None \<Rightarrow> Inl ''Test discovery failed''
      | Some files \<Rightarrow>
          (case discoverPatterns env dir patterns of
             Inl e \<Rightarrow> Inl e
           | Inr others \<Rightarrow> Inr (files @ others)))"

definition or_string :: "string option \<Rightarrow> string \<Rightarrow> string" where
  "or_string a d = (case a of None \<Rightarrow> d | Some x \<Rightarrow> if x = [] then d else x)"

definition discoverTests :: "platform \<Rightarrow> PlaywrightConfig \<Rightarrow> error + string list" where
  "discoverTests env config =
     (case discoverPatterns env (or_string (testDir config) ''tests'')
             (case testPatterns config of
                None \<Rightarrow> [''**/*.spec.js'', ''**/*.spec.ts'']
              | Some ps \<Rightarrow> ps) of
        Inl e \<Rightarrow> Inl e
      | Inr files \<Rightarrow> Inr (js_sort compareStrings (js_unique files)))"

record TestSelection =
  framework :: string
  selection :: SelectionResult

text \<open>\<open>TestOrchestrator.selectTests\<close>: the only registered integration is
  \<open>playwright\<close>, present when the configuration has it.\<close>

definition orchestratorSelectTests ::
  "platform \<Rightarrow> TEOConfig \<Rightarrow> string \<Rightarrow> ImpactedFeature list \<Rightarrow> error + TestSelection" where
  "orchestratorSelectTests env config name impactedFeatures =
     (case (if name = ''playwright'' then playwrightConfig config else None) of
        None \<Rightarrow> Inl (''Unsupported framework: '' @ name)
      | Some integration \<Rightarrow>
          (case discoverTests env integration of
             Inl e \<Rightarrow> Inl e
           | Inr allTests \<Rightarrow>
               (case selectTests env allTests impactedFeatures of
                  Inl e \<Rightarrow> Inl e
                | Inr result \<Rightarrow> Inr \<lparr>framework = name, selection = result\<rparr>)))"

section \<open>The engine (engine.js)\<close>

record AnalyzeOptions =
  last24h :: bool
  useAI :: "bool option"
  optFramework :: "string option"

record EnhancedFeature =
  enhanced :: ImpactedFeature
  aiReasoning :: string
  enhancedConfidence :: jsnumber

record AIAnalysis =
  aiConfidence :: real
  reasoning :: string
  enhancedFeatures :: "EnhancedFeature list"

definition enhanceFeatures ::
  "ImpactedFeature list \<Rightarrow> real option \<times> string \<Rightarrow> EnhancedFeature list" where
  "enhanceFeatures found aiResult =
     map (\<lambda>f. \<lparr>enhanced = f,
               aiReasoning = snd aiResult,
               enhancedConfidence =
                 (case fst aiResult of
                    None \<Rightarrow> NaN
                  | Some c \<Rightarrow> Num (min (confidence f + c * 0.2) 1.0))\<rparr>)
         found"

definition enhanceWithAI ::
  "platform \<Rightarrow> DiffAnalysisResult \<Rightarrow> ImpactedFeature list \<Rightarrow> error + AIAnalysis" where
  "enhanceWithAI env diffAnalysis found =
     (case analyzeImpact env (map filePath (changes diffAnalysis)) (map featureName found)
             (languagesAffected diffAnalysis) of
        Inl e \<Rightarrow> Inl e
      | Inr aiResult \<Rightarrow>
          Inr \<lparr>aiConfidence = or_default (fst aiResult) 0.8,
               reasoning = snd aiResult,
               enhancedFeatures = enhanceFeatures found aiResult\<rparr>)"

record AnalysisSummary =
  filesChanged :: nat
  featuresDetected :: nat
  summaryTestsSelected :: nat
  summaryFramework :: string
  summaryReduction :: jsnumber
  estimatedTimeSaved :: int

record AnalysisResult =
  analysisBaseRef :: string
  analysisHeadRef :: string
  diffAnalysis :: DiffAnalysisResult
  featureMapping :: "ImpactedFeature list"
  mappingDiagnostics :: "LogEntry list"
  aiAnalysis :: "AIAnalysis option"
  testSelection :: TestSelection
  analysisSummary :: AnalysisSummary

definition calculateTimeSaved :: "SelectionSummary \<Rightarrow> int" where
  "calculateTimeSaved s = (int (totalAvailable s) - int (totalSelected s)) * 5000"

text \<open>A reference counts when it is neither \<open>null\<close> nor the empty string.\<close>

definition truthy :: "string option \<Rightarrow> string option" where
  "truthy r = (case r of None \<Rightarrow> None | Some x \<Rightarrow> if x = [] then None else Some x)"

definition analysisRefs ::
  "platform \<Rightarrow> string option \<Rightarrow> string option \<Rightarrow> AnalyzeOptions \<Rightarrow> error + string \<times> string" where
  "analysisRefs env baseRef headRef options =
     (if \<not> last24h options
      then (case (truthy baseRef, truthy headRef) of
              (Some b, Some h) \<Rightarrow> Inr (b, h)
            | _ \<Rightarrow> Inl ''Both baseRef and headRef must be provided when last24h option is not set'')
      else (case getLastCommitWithin24Hours env of
              Inl e \<Rightarrow> Inl e
            | Inr lastCommit \<Rightarrow>
                (case truthy lastCommit of
                   None \<Rightarrow> Inl ''No commits found in the last 24 hours''
                 | Some c \<Rightarrow> Inr (c, ''HEAD''))))"

definition analyze ::
  "platform \<Rightarrow> TEOConfig \<Rightarrow> string option \<Rightarrow> string option \<Rightarrow> AnalyzeOptions
   \<Rightarrow> error + AnalysisResult" where
  "analyze env config baseRef headRef options =
     (case analysisRefs env baseRef headRef options of
        Inl e \<Rightarrow> Inl e
      | Inr (base, head) \<Rightarrow>
     (case analyzeDiff env base head of
        Inl e \<Rightarrow> Inl e
      | Inr diffResult \<Rightarrow>
     (case featureMapper env config (Some diffResult) of
        (logged, found) \<Rightarrow>
     (let ai = (if useAI options \<noteq> Some False \<and> length found > 0
                then (case enhanceWithAI env diffResult found of
                        Inl e \<Rightarrow> None
                      | Inr a \<Rightarrow> Some a)
                else None);
          name = or_string (optFramework options) ''playwright''
      in case (if length found > 0
               then orchestratorSelectTests env config name found
               else Inr \<lparr>framework = name,
                         selection =
                           \<lparr>selectedTests = [],
                            selectionReasons = [],
                            summary = \<lparr>totalAvailable = 0,
                                       totalSelected = 0,
                                       reductionPercentage = Num 0\<rparr>\<rparr>\<rparr>) of
           Inl e \<Rightarrow> Inl e
         | Inr chosen \<Rightarrow>
             Inr \<lparr>analysisBaseRef = base,
                  analysisHeadRef = head,
                  diffAnalysis = diffResult,
                  featureMapping = found,
                  mappingDiagnostics = logged,
                  aiAnalysis = ai,
                  testSelection = chosen,
                  analysisSummary =
                    \<lparr>filesChanged = length (changes diffResult),
                     featuresDetected = length found,
                     summaryTestsSelected = length (selectedTests (selection chosen)),
                     summaryFramework = name,
                     summaryReduction = reductionPercentage (summary (selection chosen)),
                     estimatedTimeSaved = calculateTimeSaved (summary (selection chosen))\<rparr>\<rparr>))))"

section \<open>Notions used in the statements\<close>

text \<open>The results that reach the merge, in the order in which the loop over the
  strategies processes them: a strategy that throws contributes none.\<close>

definition strategyResults ::
  "(string \<times> strategyMethod) list \<Rightarrow> DiffAnalysisResult \<Rightarrow> mappings \<Rightarrow> ImpactedFeature list" where
  "strategyResults strategies d mp =
     concat (map (\<lambda>(kind, s). case s d mp of Inl e \<Rightarrow> [] | Inr found \<Rightarrow> found) strategies)"

text \<open>The warnings of the strategies that throw.\<close>

definition strategyFailures ::
  "(string \<times> strategyMethod) list \<Rightarrow> DiffAnalysisResult \<Rightarrow> mappings \<Rightarrow> LogEntry list" where
  "strategyFailures strategies d mp =
     concat (map (\<lambda>(kind, s). case s d mp of
                     Inl e \<Rightarrow> [Warn ''Strategy failed'' [(''strategyType'', kind), (''error'', e)]]
                   | Inr found \<Rightarrow> []) strategies)"

definition succeeded :: "error + 'a \<Rightarrow> bool" where
  "succeeded r = (case r of Inl e \<Rightarrow> False | Inr x \<Rightarrow> True)"

text \<open>The results that carry a given feature name, in processing order.\<close>

definition contributing :: "string \<Rightarrow> ImpactedFeature list \<Rightarrow> ImpactedFeature list" where
  "contributing n rs = filter (\<lambda>r. featureName r = n) rs"

text \<open>The values of the \<open>Map\<close> after the fold, in insertion order.\<close>

definition aggregate :: "ImpactedFeature list \<Rightarrow> ImpactedFeature list" where
  "aggregate rs = map snd (foldl addFeature [] rs)"

text \<open>Every entry of the \<open>Map\<close> is stored under its own feature name.\<close>

definition keyed :: "(string \<times> ImpactedFeature) list \<Rightarrow> bool" where
  "keyed m = (\<forall>(k, v)\<in>set m. featureName v = k)"

text \<open>The state of one key of the \<open>Map\<close> after one more result with that key.\<close>

definition mergeInto :: "ImpactedFeature option \<Rightarrow> ImpactedFeature \<Rightarrow> ImpactedFeature option" where
  "mergeInto acc r = Some (case acc of None \<Rightarrow> r | Some e \<Rightarrow> mergeFeature e r)"

text \<open>The bounds that the configuration schema (config.js) puts on a strategy weight
  and on the confidence of a feature mapping: \<open>z.number().min(0).max(1)\<close>.\<close>

definition unitInterval :: "real \<Rightarrow> bool" where
  "unitInterval x = (0 \<le> x \<and> x \<le> 1)"

definition optionalUnit :: "real option \<Rightarrow> bool" where
  "optionalUnit a = (case a of None \<Rightarrow> True | Some x \<Rightarrow> unitInterval x)"

definition validConfig :: "TEOConfig \<Rightarrow> bool" where
  "validConfig config =
     (list_all (\<lambda>c. optionalUnit (configWeight c)) (detectionStrategies config)
      \<and> list_all (\<lambda>(n, m). optionalUnit (mappingConfidence m)) (configFeatures config))"

text \<open>A feature claims a test path when the path is among its matching tests.\<close>

definition claims :: "platform \<Rightarrow> string list \<Rightarrow> string \<Rightarrow> ImpactedFeature \<Rightarrow> bool" where
  "claims env files p f =
     (case matchTestsToFeature env files f of Inl e \<Rightarrow> False | Inr ms \<Rightarrow> p \<in> set ms)"

text \<open>A selected test carries the name, confidence and strategy of a feature.\<close>

definition entryOf :: "ImpactedFeature \<Rightarrow> SelectedTest \<Rightarrow> bool" where
  "entryOf f t = (feature t = featureName f \<and> selectedConfidence t = confidence f
                  \<and> strategy t = strategyUsed f)"

section \<open>A sample platform\<close>

text \<open>A repository with one source directory \<open>src/auth\<close>, two test files and a
  JavaScript parser that always answers with the same tree; it is used to run the
  definitions on concrete inputs.\<close>

definition sampleFunction :: SyntaxNode where
  "sampleFunction =
     SyntaxNode ''function_declaration'' ''function login() {}''
       [SyntaxNode ''function'' ''function'' [],
        SyntaxNode ''identifier'' ''login'' [],
        SyntaxNode ''formal_parameters'' ''()'' [],
        SyntaxNode ''statement_block'' ''{}'' []]"

definition sampleTree :: SyntaxNode where
  "sampleTree =
     SyntaxNode ''program'' ''function login() {} class Session {}''
       [sampleFunction,
        SyntaxNode ''class_declaration'' ''class Session {}''
          [SyntaxNode ''class'' ''class'' [],
           SyntaxNode ''identifier'' ''Session'' [],
           SyntaxNode ''class_body'' ''{}'' []]]"

definition sampleTests :: "string list" where
  "sampleTests = [''tests/auth/login.spec.js'', ''tests/payments/pay.spec.js'']"

definition sampleSummary :: FileSummary where
  "sampleSummary =
     \<lparr>summaryFile = ''src/auth/login.js'', summaryOldPath = None,
      insertions = 3, deletions = 1, binary = False\<rparr>"

definition samplePlatform :: platform where
  "samplePlatform =
     \<lparr>toLowerCase = (\<lambda>s. s),
      trim = (\<lambda>s. s),
      extname = (\<lambda>p. if p = ''src/auth/login.js'' \<or> p = ''src/auth/session.js'' then ''.js'' else []),
      resolvePath = (\<lambda>p. p),
      gitShow = (\<lambda>commit p. if p = ''src/auth/login.js'' then Some ''function login() {} class Session {}'' else None),
      parsers = (\<lambda>language. if language = ''javascript'' then Some (\<lambda>content. Inr sampleTree) else None),
      minimatch = (\<lambda>p pattern. Inr (pattern = ''src/auth/**'' \<and> starts_with p ''src/auth/'')),
      glob = (\<lambda>pattern.
                if pattern = ''tests/auth/**'' then Some [''tests/auth/login.spec.js'']
                else if pattern = ''tests/auth/**/*.{test,spec}.{js,ts}''
                  then Some [''tests/auth/login.spec.js'']
                else if pattern = ''tests/**/*.spec.js'' then Some sampleTests
                else Some []),
      readFile = (\<lambda>p. None),
      annotationMatches = (\<lambda>content. []),
      extractFeatureFromSymbol = (\<lambda>symbol. symbol),
      extractFeatureFromPath = (\<lambda>p. []),
      regexTest = (\<lambda>regex p. Inr (regex = p)),
      pathSep = CHR ''/'',
      pathJoin = (\<lambda>dir pattern. dir @ ''/'' @ pattern),
      checkIsRepo = Inr True,
      revparse = (\<lambda>ref. Inr ref),
      gitDiffSummary = (\<lambda>base head.
                Inr (if base = head then []
                     else [sampleSummary],
                     if base = head then 0 else 3, if base = head then 0 else 1)),
      getLastCommitWithin24Hours = Inr None,
      analyzeImpact = (\<lambda>files names languages. Inl ''no provider'')\<rparr>"

definition sampleConfig :: TEOConfig where
  "sampleConfig =
     \<lparr>detectionStrategies =
        [\<lparr>strategyType = ''file_based'', enabled = Some True, configWeight = Some 1\<rparr>],
      configFeatures =
        [(''authentication'',
          \<lparr>source_patterns = Some [''src/auth/**''],
           test_patterns = Some [''tests/auth/**''],
           mappingConfidence = Some 1,
           mappingMetadata = None\<rparr>)],
      playwrightConfig = Some \<lparr>testDir = None, testPatterns = Some [''**/*.spec.js'']\<rparr>\<rparr>"

definition sampleOptions :: AnalyzeOptions where
  "sampleOptions = \<lparr>last24h = False, useAI = None, optFramework = None\<rparr>"

text \<open>The change set of the sample repository, a second one with two changed files, and
  the one between a revision and itself.\<close>

definition sampleChange :: CodeChange where
  "sampleChange =
     \<lparr>filePath = ''src/auth/login.js'', changeType = MODIFIED, oldPath = None,
      linesAdded = 3, linesRemoved = 1, functionsChanged = [],
      classesChanged = [''Session''], importsChanged = []\<rparr>"

definition sampleDiff :: DiffAnalysisResult where
  "sampleDiff =
     \<lparr>baseCommit = ''main'', headCommit = ''HEAD'', changes = [sampleChange],
      totalFilesChanged = 1, totalLinesAdded = 3, totalLinesRemoved = 1,
      languagesAffected = [''javascript'']\<rparr>"

definition emptyDiff :: DiffAnalysisResult where
  "emptyDiff =
     \<lparr>baseCommit = ''main'', headCommit = ''main'', changes = [],
      totalFilesChanged = 0, totalLinesAdded = 0, totalLinesRemoved = 0,
      languagesAffected = []\<rparr>"

definition sessionChange :: CodeChange where
  "sessionChange =
     \<lparr>filePath = ''src/auth/session.js'', changeType = ADDED, oldPath = None,
      linesAdded = 10, linesRemoved = 0, functionsChanged = [],
      classesChanged = [], importsChanged = []\<rparr>"

definition mergeDiff :: DiffAnalysisResult where
  "mergeDiff =
     \<lparr>baseCommit = ''main'', headCommit = ''HEAD'', changes = [sampleChange, sessionChange],
      totalFilesChanged = 2, totalLinesAdded = 13, totalLinesRemoved = 1,
      languagesAffected = [''javascript'']\<rparr>"

definition mergeConfig :: TEOConfig where
  "mergeConfig =
     \<lparr>detectionStrategies =
        [\<lparr>strategyType = ''folder_based'', enabled = Some True, configWeight = Some 0.5\<rparr>,
         \<lparr>strategyType = ''file_based'', enabled = Some True, configWeight = Some 1\<rparr>],
      configFeatures =
        [(''auth'',
          \<lparr>source_patterns = Some [''src/auth/**''],
           test_patterns = Some [''tests/auth/**''],
           mappingConfidence = Some 0.9,
           mappingMetadata = Some [''owner'' \<mapsto> JString ''identity-team'']\<rparr>)],
      playwrightConfig = Some \<lparr>testDir = None, testPatterns = Some [''**/*.spec.js'']\<rparr>\<rparr>"

text \<open>A configuration whose folder-based strategy has the weight \<open>5\<close>.\<close>

definition heavyConfig :: TEOConfig where
  "heavyConfig =
     \<lparr>detectionStrategies =
        [\<lparr>strategyType = ''folder_based'', enabled = Some True, configWeight = Some 5\<rparr>],
      configFeatures = [],
      playwrightConfig = Some \<lparr>testDir = None, testPatterns = Some [''**/*.spec.js'']\<rparr>\<rparr>"

text \<open>A file-based mapping whose configured confidence is \<open>0\<close>.\<close>

definition zeroConfidenceMappings :: mappings where
  "zeroConfidenceMappings =
     [(''authentication'',
       \<lparr>source_patterns = Some [''src/auth/**''],
        test_patterns = Some [''tests/auth/**''],
        mappingConfidence = Some 0,
        mappingMetadata = None\<rparr>)]"

text \<open>The sample platform with a \<open>minimatch\<close> that rejects every pattern as too long.\<close>

definition throwingPlatform :: platform where
  "throwingPlatform = samplePlatform\<lparr>minimatch := (\<lambda>p pattern. Inl ''pattern is too long'')\<rparr>"

text \<open>An impacted feature as a strategy would report it.\<close>

definition sampleFeature :: "string \<Rightarrow> real \<Rightarrow> string list \<Rightarrow> string list \<Rightarrow> ImpactedFeature" where
  "sampleFeature name c files tests =
     \<lparr>featureName = name, confidence = c, impactedFiles = files, testFiles = tests,
      changeSummary = [], strategyUsed = FILE_BASED, metadata = Map.empty\<rparr>"

text \<open>Two ranked features that both match \<open>tests/shared.spec.js\<close>.\<close>

definition scenarioD :: "ImpactedFeature list" where
  "scenarioD =
     [sampleFeature ''payments'' 0.9 [''a.js''] [''tests/shared.spec.js''],
      sampleFeature ''checkout'' 0.6 [''b.js''] [''tests/shared.spec.js'', ''tests/other.spec.js'']]"

definition scenarioDTests :: "string list" where
  "scenarioDTests = [''tests/other.spec.js'', ''tests/shared.spec.js'']"

section \<open>Properties\<close>

subsection \<open>Classification of a changed file\<close>

lemma performSyntaxAnalysis_changeType:
  "changeType (performSyntaxAnalysis env c b h) = changeType c"
  by (simp add: performSyntaxAnalysis_def Let_def split: option.splits sum.splits)

text \<open>
  Claim C6. Every file of the diff summary gets the change type \<open>modified\<close> when it is
  binary, otherwise \<open>added\<close> when it has insertions and no deletions, otherwise
  \<open>deleted\<close> when it has deletions and no insertions, otherwise \<open>modified\<close>; the
  syntax analysis that follows the classification does not change it. The path
  resolution is a parameter, so the statement covers both variants of the analyzer.
\<close>

theorem analyzeFileChange_changeType:
  "changeType (analyzeFileChange env fileSummary b h) =
     (if binary fileSummary then MODIFIED
      else if insertions fileSummary > 0 \<and> deletions fileSummary = 0 then ADDED
      else if insertions fileSummary = 0 \<and> deletions fileSummary > 0 then DELETED
      else MODIFIED)"
  by (simp add: analyzeFileChange_def Let_def performSyntaxAnalysis_changeType)

subsection \<open>Symbols of a changed file\<close>

text \<open>
  Claim C2. The claim says that the function names of the head revision end up in
  \<open>functionsChanged\<close>. On a JavaScript file whose tree has the function declaration
  \<open>login\<close> and the class declaration \<open>Session\<close>, the declaration is a function-like
  node with the identifier child \<open>login\<close>, yet \<open>extractFunctions\<close> returns the empty
  list, because \<open>getFunctionQuery\<close> answers \<open>null\<close> for every language and the
  function returns before it walks the tree; \<open>extractClasses\<close>, which has no such
  guard, finds the class.
\<close>

theorem extractFunctions_misses_declaration:
  "isFunctionNode sampleFunction ''javascript''
   \<and> sampleFunction \<in> set (walkTree sampleTree)
   \<and> extractNodeName sampleFunction ''javascript'' = Some ''login''
   \<and> extractFunctions sampleTree ''javascript'' = []
   \<and> extractClasses sampleTree ''javascript'' = [''Session'']
   \<and> functionsChanged (analyzeFileChange samplePlatform sampleSummary ''main'' ''HEAD'') = []
   \<and> classesChanged (analyzeFileChange samplePlatform sampleSummary ''main'' ''HEAD'') = [''Session'']"
  by (simp add: sampleTree_def sampleFunction_def isFunctionNode_def isKind_def functionTypes_def
      extractNodeName_def extractFunctions_def getFunctionQuery_def extractClasses_def
      isClassNode_def classTypes_def pushName_def analyzeFileChange_def sampleSummary_def
      samplePlatform_def performSyntaxAnalysis_def detectLanguage_def LANGUAGE_EXTENSIONS_def
      getFileContent_def parseContent_def Let_def)

subsection \<open>Selection over an empty test corpus\<close>

lemma matchHints_no_files: "matchHints env [] ps = Inr []"
  by (induction ps) simp_all

lemma matchTestsToFeature_no_files: "matchTestsToFeature env [] f = Inr []"
  by (simp add: matchTestsToFeature_def matchHints_no_files js_unique_def)

lemma selectLoop_no_files: "selectLoop env [] fs (sel, rs) = Inr (sel, rs)"
  by (induction fs) (simp_all add: matchTestsToFeature_no_files)

text \<open>
  Claim C10. With an empty list of available test files the selection returns, for any
  impacted features, a summary with \<open>totalAvailable = 0\<close>, \<open>totalSelected = 0\<close> and a
  \<open>reductionPercentage\<close> that is \<open>NaN\<close>, a value distinct from every number: the
  quotient of the two lengths is \<open>0 / 0\<close>.
\<close>

theorem selectTests_no_files:
  "selectTests env [] impacted =
     Inr \<lparr>selectedTests = [], selectionReasons = [],
          summary = \<lparr>totalAvailable = 0, totalSelected = 0, reductionPercentage = NaN\<rparr>\<rparr>"
  by (simp add: selectTests_def selectLoop_no_files lengthRatio_def)

subsection \<open>Sets, the sort and the Map\<close>

lemma distinct_set_add: "distinct s \<Longrightarrow> distinct (set_add s x)"
  by (simp add: set_add_def)

lemma set_set_add: "set (set_add s x) = insert x (set s)"
  by (auto simp: set_add_def)

lemma foldl_set_add_remdups:
  "distinct acc \<Longrightarrow> foldl set_add acc xs = rev (remdups (rev xs @ rev acc))"
proof (induction xs arbitrary: acc)
  case Nil
  then show ?case by (simp add: distinct_remdups_id)
next
  case (Cons x xs)
  have "foldl set_add (set_add acc x) xs = rev (remdups (rev xs @ rev (set_add acc x)))"
    using Cons.IH [OF distinct_set_add [OF Cons.prems]] .
  moreover have "remdups (rev xs @ rev (set_add acc x)) = remdups (rev xs @ x # rev acc)"
  proof (cases "x \<in> set acc")
    case True
    have "remdups (rev xs @ x # rev acc) = remdups (rev xs @ remdups (x # rev acc))"
      by (simp only: remdups_append2)
    also have "remdups (x # rev acc) = remdups (rev acc)" using True by simp
    finally show ?thesis using True by (simp add: set_add_def remdups_append2)
  next
    case False
    then show ?thesis by (simp add: set_add_def)
  qed
  ultimately show ?case by simp
qed

lemma js_unique_remdups: "js_unique xs = rev (remdups (rev xs))"
  using foldl_set_add_remdups [of "[]" xs] by (simp add: js_unique_def)

lemma set_js_unique: "set (js_unique xs) = set xs"
  by (simp add: js_unique_remdups)

lemma distinct_js_unique: "distinct (js_unique xs)"
  by (simp add: js_unique_remdups)

lemma js_unique_distinct: "distinct xs \<Longrightarrow> js_unique xs = xs"
  by (simp add: js_unique_remdups distinct_remdups_id)

lemma js_unique_append_left: "js_unique (js_unique xs @ ys) = js_unique (xs @ ys)"
  by (simp add: js_unique_remdups remdups_append2)

lemma insertBy_insort:
  "insertBy (\<lambda>a b. confidence b - confidence a) x ys = insort_key (\<lambda>f. - confidence f) x ys"
  by (induction ys) simp_all

lemma js_sort_sort_key:
  "js_sort (\<lambda>a b. confidence b - confidence a) xs = sort_key (\<lambda>f. - confidence f) xs"
  by (induction xs) (simp_all add: js_sort_def sort_key_def insertBy_insort)

lemma map_of_map_set: "map_of (map_set m k v) = (map_of m)(k \<mapsto> v)"
  by (induction m) (auto simp: fun_eq_iff)

lemma keys_map_set: "map fst (map_set m k v) = set_add (map fst m) k"
  by (induction m) (force simp: set_add_def split: if_splits)+

lemma keys_addFeature: "map fst (addFeature m f) = set_add (map fst m) (featureName f)"
  by (simp add: addFeature_def Let_def keys_map_set split: option.splits)

lemma keys_foldl_addFeature:
  "map fst (foldl addFeature m rs) = foldl set_add (map fst m) (map featureName rs)"
  by (induction rs arbitrary: m) (simp_all add: keys_addFeature)

lemma featureName_mergeFeature: "featureName (mergeFeature e f) = featureName e"
  by (simp add: mergeFeature_def)

lemma set_map_set: "set (map_set m k v) \<subseteq> insert (k, v) (set m)"
  by (induction m) (auto split: if_splits)

lemma keyed_addFeature: "keyed m \<Longrightarrow> keyed (addFeature m f)"
proof -
  assume k: "keyed m"
  show ?thesis
  proof (cases "map_of m (featureName f)")
    case None
    then show ?thesis using k set_map_set [of m "featureName f" f]
      by (auto simp: addFeature_def keyed_def)
  next
    case (Some e)
    then have "(featureName f, e) \<in> set m" by (rule map_of_SomeD)
    then have "featureName e = featureName f" using k by (auto simp: keyed_def)
    then show ?thesis using k Some set_map_set [of m "featureName f" "mergeFeature e f"]
      by (auto simp: addFeature_def keyed_def featureName_mergeFeature)
  qed
qed

lemma keyed_foldl: "keyed m \<Longrightarrow> keyed (foldl addFeature m rs)"
  by (induction rs arbitrary: m) (simp_all add: keyed_addFeature)

lemma keyed_names: "keyed m \<Longrightarrow> map (featureName \<circ> snd) m = map fst m"
  by (induction m) (auto simp: keyed_def)

lemma names_aggregate: "map featureName (aggregate rs) = js_unique (map featureName rs)"
proof -
  have "keyed (foldl addFeature [] rs)" by (rule keyed_foldl) (simp add: keyed_def)
  then show ?thesis
    by (simp add: aggregate_def keyed_names keys_foldl_addFeature js_unique_def)
qed

lemma map_of_addFeature:
  "map_of (addFeature m f) n =
     (if featureName f = n then mergeInto (map_of m n) f else map_of m n)"
  by (simp add: addFeature_def Let_def map_of_map_set mergeInto_def split: option.splits)

lemma map_of_foldl_addFeature:
  "map_of (foldl addFeature m rs) n = foldl mergeInto (map_of m n) (contributing n rs)"
  by (induction rs arbitrary: m) (simp_all add: map_of_addFeature contributing_def)

lemma foldl_mergeInto_Some: "foldl mergeInto (Some e) cs = Some (foldl mergeFeature e cs)"
  by (induction cs arbitrary: e) (simp_all add: mergeInto_def)

lemma map_of_aggregate_Cons:
  "contributing n rs = c # cs \<Longrightarrow> map_of (foldl addFeature [] rs) n = Some (foldl mergeFeature c cs)"
  by (simp add: map_of_foldl_addFeature mergeInto_def foldl_mergeInto_Some)

lemma confidence_foldl_merge:
  "confidence (foldl mergeFeature c cs) = Max (set (map confidence (c # cs)))"
proof (induction cs arbitrary: c)
  case Nil
  then show ?case by simp
next
  case (Cons x xs)
  have "confidence (foldl mergeFeature (mergeFeature c x) xs)
        = Max (set (map confidence (mergeFeature c x # xs)))" by (rule Cons.IH)
  also have "\<dots> = Max (insert (max (confidence c) (confidence x)) (confidence ` set xs))"
    by (simp add: mergeFeature_def)
  also have "\<dots> = Max (set (map confidence (c # x # xs)))"
    by (cases "xs = []") (simp_all add: max.assoc)
  finally show ?case by simp
qed

lemma metadata_foldl_merge:
  "metadata (foldl mergeFeature c cs) = foldl (++) (metadata c) (map metadata cs)"
  by (induction cs arbitrary: c) (simp_all add: mergeFeature_def)

lemma impactedFiles_foldl_merge:
  "distinct (impactedFiles c) \<Longrightarrow>
   impactedFiles (foldl mergeFeature c cs) = js_unique (concat (map impactedFiles (c # cs)))"
proof (induction cs arbitrary: c)
  case Nil
  then show ?case by (simp add: js_unique_distinct)
next
  case (Cons x xs)
  have d: "distinct (impactedFiles (mergeFeature c x))"
    by (simp add: mergeFeature_def distinct_js_unique)
  show ?case using Cons.IH [OF d]
    by (simp add: mergeFeature_def js_unique_append_left)
qed

lemma testFiles_foldl_merge:
  "distinct (testFiles c) \<Longrightarrow>
   testFiles (foldl mergeFeature c cs) = js_unique (concat (map testFiles (c # cs)))"
proof (induction cs arbitrary: c)
  case Nil
  then show ?case by (simp add: js_unique_distinct)
next
  case (Cons x xs)
  have d: "distinct (testFiles (mergeFeature c x))"
    by (simp add: mergeFeature_def distinct_js_unique)
  show ?case using Cons.IH [OF d]
    by (simp add: mergeFeature_def js_unique_append_left)
qed

subsection \<open>The loop over the strategies\<close>

lemma foldl_applyStrategy:
  "foldl (applyStrategy d mp) (lg, m) strategies =
     (lg @ strategyFailures strategies d mp, foldl addFeature m (strategyResults strategies d mp))"
proof (induction strategies arbitrary: lg m)
  case Nil
  then show ?case by (simp add: strategyFailures_def strategyResults_def)
next
  case (Cons a strategies)
  obtain kind s where a: "a = (kind, s)" by (cases a)
  show ?case
  proof (cases "s d mp")
    case (Inl e)
    then show ?thesis using Cons.IH a
      by (simp add: applyStrategy_def strategyFailures_def strategyResults_def)
  next
    case (Inr found)
    then show ?thesis using Cons.IH a
      by (simp add: applyStrategy_def strategyFailures_def strategyResults_def)
  qed
qed

lemma mapChangesToFeatures_Some:
  "mapChangesToFeatures strategies mp (Some d) =
     (strategyFailures strategies d mp,
      js_sort (\<lambda>a b. confidence b - confidence a) (aggregate (strategyResults strategies d mp)))"
  by (simp add: mapChangesToFeatures_def foldl_applyStrategy aggregate_def)

lemma strategyResults_filter:
  "strategyResults (filter (\<lambda>(k, t). succeeded (t d mp)) strategies) d mp = strategyResults strategies d mp"
  by (induction strategies) (auto simp: strategyResults_def succeeded_def split: sum.splits)

lemma strategyFailures_filter:
  "strategyFailures (filter (\<lambda>(k, t). succeeded (t d mp)) strategies) d mp = []"
  by (induction strategies) (auto simp: strategyFailures_def succeeded_def split: sum.splits)

lemma strategyFailures_member:
  "(kind, s) \<in> set strategies \<Longrightarrow> s d mp = Inl e \<Longrightarrow>
   Warn ''Strategy failed'' [(''strategyType'', kind), (''error'', e)] \<in> set (strategyFailures strategies d mp)"
  by (induction strategies) (auto simp: strategyFailures_def)

lemma throwing_strategies:
  "mapperStrategies throwingPlatform mergeConfig =
     [(FOLDER_BASED, strategyMapChangesToFeatures throwingPlatform (FolderBasedStrategy (1 / 2))),
      (FILE_BASED, strategyMapChangesToFeatures throwingPlatform (FileBasedStrategy 1))]"
  by (simp add: mapperStrategies_def initializeStrategies_def registerStrategy_def newStrategy_def
      FOLDER_BASED_def FILE_BASED_def baseWeight_def or_default_def mergeConfig_def)

lemma throwing_fileBased:
  "strategyMapChangesToFeatures throwingPlatform (FileBasedStrategy 1) mergeDiff (configFeatures mergeConfig)
     = Inl ''pattern is too long''"
  by (simp add: throwingPlatform_def samplePlatform_def mergeDiff_def mergeConfig_def or_empty_def)

lemma throwing_folderBased:
  "strategyMapChangesToFeatures throwingPlatform (FolderBasedStrategy (1 / 2)) mergeDiff (configFeatures mergeConfig)
     = Inr [\<lparr>featureName = ''auth'', confidence = 2 / 5, impactedFiles = [''src/auth/login.js''],
       testFiles = [''tests/auth/login.spec.js''], changeSummary = ''Changes in auth module'',
       strategyUsed = FOLDER_BASED, metadata = Map.empty\<rparr>,
      \<lparr>featureName = ''auth'', confidence = 2 / 5, impactedFiles = [''src/auth/session.js''],
       testFiles = [''tests/auth/login.spec.js''], changeSummary = ''Changes in auth module'',
       strategyUsed = FOLDER_BASED, metadata = Map.empty\<rparr>]"
  by (simp add: throwingPlatform_def samplePlatform_def mergeDiff_def sampleChange_def sessionChange_def
      globAll_def js_unique_def set_add_def folderBasedChange_def extractFeaturesFromPath_def
      afterSegment_def findTestFiles_def testDirs_def Let_def)

text \<open>
  Claim C7. When a strategy of the mapper throws, the error is caught inside the loop:
  the list that the mapping step returns is the list it returns for the strategies that
  did not throw, taken alone; a warning \<open>Strategy failed\<close> with the type of the
  strategy and the message of the error is among the diagnostics; and the strategies that
  did not throw log no warning. The mapping step itself has no error result.
\<close>

theorem failing_strategy_is_isolated:
  assumes "(kind, s) \<in> set strategies" and "s d mp = Inl e"
  shows "snd (mapChangesToFeatures strategies mp (Some d))
           = snd (mapChangesToFeatures (filter (\<lambda>(k, t). succeeded (t d mp)) strategies) mp (Some d))
         \<and> Warn ''Strategy failed'' [(''strategyType'', kind), (''error'', e)]
             \<in> set (fst (mapChangesToFeatures strategies mp (Some d)))
         \<and> fst (mapChangesToFeatures (filter (\<lambda>(k, t). succeeded (t d mp)) strategies) mp (Some d)) = []"
  using strategyFailures_member [OF assms]
  by (simp add: mapChangesToFeatures_Some strategyResults_filter strategyFailures_filter)

theorem failing_strategy_is_isolated_witness:
  "(FILE_BASED, strategyMapChangesToFeatures throwingPlatform (FileBasedStrategy 1))
      \<in> set (mapperStrategies throwingPlatform mergeConfig)
   \<and> strategyMapChangesToFeatures throwingPlatform (FileBasedStrategy 1) mergeDiff (configFeatures mergeConfig)
       = Inl ''pattern is too long''
   \<and> snd (featureMapper throwingPlatform mergeConfig (Some mergeDiff))
       = snd (mapChangesToFeatures
                [(FOLDER_BASED, strategyMapChangesToFeatures throwingPlatform (FolderBasedStrategy (1 / 2)))]
                (configFeatures mergeConfig) (Some mergeDiff))
   \<and> map featureName (snd (featureMapper throwingPlatform mergeConfig (Some mergeDiff))) = [''auth'']
   \<and> map confidence (snd (featureMapper throwingPlatform mergeConfig (Some mergeDiff))) = [2 / 5]
   \<and> Warn ''Strategy failed'' [(''strategyType'', FILE_BASED), (''error'', ''pattern is too long'')]
       \<in> set (fst (featureMapper throwingPlatform mergeConfig (Some mergeDiff)))"
proof -
  have m: "(FILE_BASED, strategyMapChangesToFeatures throwingPlatform (FileBasedStrategy 1))
      \<in> set (mapperStrategies throwingPlatform mergeConfig)"
    by (simp add: throwing_strategies del: strategyMapChangesToFeatures.simps)
  have f: "filter (\<lambda>(k, t). succeeded (t mergeDiff (configFeatures mergeConfig)))
             (mapperStrategies throwingPlatform mergeConfig)
           = [(FOLDER_BASED, strategyMapChangesToFeatures throwingPlatform (FolderBasedStrategy (1 / 2)))]"
    by (simp add: throwing_strategies succeeded_def throwing_fileBased throwing_folderBased
        del: strategyMapChangesToFeatures.simps)
  have s: "map featureName (snd (mapChangesToFeatures
                [(FOLDER_BASED, strategyMapChangesToFeatures throwingPlatform (FolderBasedStrategy (1 / 2)))]
                (configFeatures mergeConfig) (Some mergeDiff))) = [''auth'']
        \<and> map confidence (snd (mapChangesToFeatures
                [(FOLDER_BASED, strategyMapChangesToFeatures throwingPlatform (FolderBasedStrategy (1 / 2)))]
                (configFeatures mergeConfig) (Some mergeDiff))) = [2 / 5]"
    by (simp add: mapChangesToFeatures_def applyStrategy_def throwing_folderBased addFeature_def
        mergeFeature_def js_sort_def js_unique_def set_add_def Let_def
        del: strategyMapChangesToFeatures.simps)
  show ?thesis
    using failing_strategy_is_isolated [OF m throwing_fileBased] m throwing_fileBased s
    by (simp add: f featureMapper_def del: strategyMapChangesToFeatures.simps)
qed

subsection \<open>Ranking\<close>

text \<open>
  Claim C8. The list returned by the aggregation is sorted by confidence in descending
  order; for every confidence value, the features with that value appear in the order
  they have among the values of the \<open>Map\<close>; and the feature names of these values are
  the names of the processed results in order of first occurrence.
\<close>

theorem ranked_descending_stable:
  "sorted_wrt (\<lambda>a b. confidence b \<le> confidence a) (snd (mapChangesToFeatures strategies mp (Some d)))
   \<and> (\<forall>c. filter (\<lambda>f. confidence f = c) (snd (mapChangesToFeatures strategies mp (Some d)))
          = filter (\<lambda>f. confidence f = c) (aggregate (strategyResults strategies d mp)))
   \<and> map featureName (aggregate (strategyResults strategies d mp))
       = js_unique (map featureName (strategyResults strategies d mp))"
proof -
  let ?xs = "aggregate (strategyResults strategies d mp)"
  let ?key = "\<lambda>f. - confidence f"
  have out: "snd (mapChangesToFeatures strategies mp (Some d)) = sort_key ?key ?xs"
    by (simp add: mapChangesToFeatures_Some js_sort_sort_key)
  have "sorted (map ?key (sort_key ?key ?xs))" by (rule sorted_sort_key)
  then have s: "sorted_wrt (\<lambda>a b. confidence b \<le> confidence a) (sort_key ?key ?xs)"
    by (simp add: sorted_map)
  have st: "filter (\<lambda>f. confidence f = c) (sort_key ?key ?xs) = filter (\<lambda>f. confidence f = c) ?xs" for c
    using sort_key_stable [of ?key "- c" ?xs] by simp
  show ?thesis using s st by (simp add: out names_aggregate)
qed

subsection \<open>The merged feature of a name\<close>

lemma filter_key_single:
  "distinct (map fst m) \<Longrightarrow> map_of m n = Some v \<Longrightarrow> filter (\<lambda>kv. fst kv = n) m = [(n, v)]"
proof (induction m)
  case Nil
  then show ?case by simp
next
  case (Cons a m)
  obtain k w where a: "a = (k, w)" by (cases a)
  show ?case
  proof (cases "k = n")
    case True
    then have "filter (\<lambda>kv. fst kv = n) m = []" using Cons.prems a
      by (auto simp: filter_empty_conv)
    then show ?thesis using True Cons.prems a by simp
  next
    case False
    then show ?thesis using Cons a by simp
  qed
qed

lemma keyed_filter:
  "keyed m \<Longrightarrow> filter (\<lambda>f. featureName f = n) (map snd m) = map snd (filter (\<lambda>kv. fst kv = n) m)"
  by (induction m) (auto simp: keyed_def)

lemma distinct_keys_foldl: "distinct (map fst (foldl addFeature [] rs))"
  using distinct_js_unique [of "map featureName rs"]
  by (simp add: keys_foldl_addFeature js_unique_def)

lemma aggregate_named:
  assumes "contributing n rs = c # cs"
  shows "filter (\<lambda>f. featureName f = n) (aggregate rs) = [foldl mergeFeature c cs]"
proof -
  have k: "keyed (foldl addFeature [] rs)" by (rule keyed_foldl) (simp add: keyed_def)
  show ?thesis
    unfolding aggregate_def keyed_filter [OF k]
    using filter_key_single [OF distinct_keys_foldl map_of_aggregate_Cons [OF assms]]
    by simp
qed

lemma merged_feature_fields:
  assumes "\<forall>r\<in>set (strategyResults strategies d mp). distinct (impactedFiles r) \<and> distinct (testFiles r)"
      and "n \<in> set (map featureName (strategyResults strategies d mp))"
  shows "\<exists>m. filter (\<lambda>f. featureName f = n) (snd (mapChangesToFeatures strategies mp (Some d))) = [m]
           \<and> confidence m = Max (set (map confidence (contributing n (strategyResults strategies d mp))))
           \<and> impactedFiles m = js_unique (concat (map impactedFiles (contributing n (strategyResults strategies d mp))))
           \<and> testFiles m = js_unique (concat (map testFiles (contributing n (strategyResults strategies d mp))))
           \<and> metadata m = foldl (++) Map.empty (map metadata (contributing n (strategyResults strategies d mp)))"
proof -
  let ?rs = "strategyResults strategies d mp"
  from assms(2) have "contributing n ?rs \<noteq> []"
    by (auto simp: contributing_def filter_empty_conv)
  then obtain c cs where cc: "contributing n ?rs = c # cs" by (cases "contributing n ?rs") auto
  then have "c \<in> set (contributing n ?rs)" by simp
  then have "c \<in> set ?rs" by (simp add: contributing_def)
  then have dc: "distinct (impactedFiles c)" "distinct (testFiles c)" using assms(1) by auto
  let ?m = "foldl mergeFeature c cs"
  have "filter (\<lambda>f. featureName f = n) (snd (mapChangesToFeatures strategies mp (Some d)))
          = sort_key (\<lambda>f. - confidence f) (filter (\<lambda>f. featureName f = n) (aggregate ?rs))"
    by (simp add: mapChangesToFeatures_Some js_sort_sort_key filter_sort)
  also have "\<dots> = [?m]" by (simp add: aggregate_named [OF cc])
  finally have 1: "filter (\<lambda>f. featureName f = n) (snd (mapChangesToFeatures strategies mp (Some d))) = [?m]" .
  have 2: "confidence ?m = Max (set (map confidence (contributing n ?rs)))"
    by (simp only: cc confidence_foldl_merge)
  have 3: "impactedFiles ?m = js_unique (concat (map impactedFiles (contributing n ?rs)))"
    by (simp only: cc impactedFiles_foldl_merge [OF dc(1)])
  have 4: "testFiles ?m = js_unique (concat (map testFiles (contributing n ?rs)))"
    by (simp only: cc testFiles_foldl_merge [OF dc(2)])
  have 5: "metadata ?m = foldl (++) Map.empty (map metadata (contributing n ?rs))"
    by (simp add: cc metadata_foldl_merge)
  show ?thesis
    by (rule exI [of _ ?m]) (intro conjI 1 2 3 4 5)
qed

text \<open>Every result of the four strategies has one impacted file and a list of test
  files that was made unique.\<close>

lemma distinct_globAll: "distinct (globAll env ps)"
  by (simp add: globAll_def distinct_js_unique)

lemma folderBased_distinct:
  "f \<in> set (folderBasedChange env w c) \<Longrightarrow> distinct (impactedFiles f) \<and> distinct (testFiles f)"
  by (auto simp: folderBasedChange_def Let_def findTestFiles_def distinct_globAll split: if_splits)

lemma annotationBased_distinct:
  "f \<in> set (annotationBasedChange env w c) \<Longrightarrow> distinct (impactedFiles f) \<and> distinct (testFiles f)"
  by (auto simp: annotationBasedChange_def findTestFilesForFeature_def distinct_globAll
      split: if_splits option.splits)

lemma astBased_distinct:
  "f \<in> set (astBasedChange env w c) \<Longrightarrow> distinct (impactedFiles f) \<and> distinct (testFiles f)"
  by (auto simp: astBasedChange_def Let_def findTestsForSymbols_def distinct_globAll split: if_splits)

lemma fileBasedMappings_distinct:
  "fileBasedMappings env w p mp = Inr fs \<Longrightarrow> f \<in> set fs \<Longrightarrow>
   distinct (impactedFiles f) \<and> distinct (testFiles f)"
proof (induction mp arbitrary: fs)
  case Nil
  then show ?case by simp
next
  case (Cons a mp)
  obtain n m where a: "a = (n, m)" by (cases a)
  from Cons.prems(1) a obtain matched rest where
    m: "matchesPatterns env p (or_empty (source_patterns m)) = Inr matched"
    and r: "fileBasedMappings env w p mp = Inr rest"
    by (auto split: sum.splits)
  have "f \<in> set rest \<or> (impactedFiles f = [p]
          \<and> testFiles f = resolveTestPatterns env (or_empty (test_patterns m)))"
    using Cons.prems a m r by (auto split: if_splits)
  then show ?case using Cons.IH [OF r]
    by (auto simp: resolveTestPatterns_def distinct_globAll)
qed

lemma fileBasedChanges_distinct:
  "fileBasedChanges env w cs mp = Inr fs \<Longrightarrow> f \<in> set fs \<Longrightarrow>
   distinct (impactedFiles f) \<and> distinct (testFiles f)"
proof (induction cs arbitrary: fs)
  case Nil
  then show ?case by simp
next
  case (Cons c cs)
  from Cons.prems(1) obtain here rest where
    h: "fileBasedMappings env w (filePath c) mp = Inr here"
    and r: "fileBasedChanges env w cs mp = Inr rest" and fs: "fs = here @ rest"
    by (auto split: sum.splits)
  from Cons.prems(2) fs have "f \<in> set here \<or> f \<in> set rest" by simp
  then show ?case using fileBasedMappings_distinct [OF h] Cons.IH [OF r] by blast
qed

lemma strategy_distinct:
  assumes "strategyMapChangesToFeatures env s d mp = Inr fs" and "f \<in> set fs"
  shows "distinct (impactedFiles f) \<and> distinct (testFiles f)"
proof (cases s)
  case (FolderBasedStrategy w)
  then show ?thesis using assms folderBased_distinct by auto
next
  case (FileBasedStrategy w)
  then show ?thesis using assms fileBasedChanges_distinct [of env w "changes d" mp fs f] by simp
next
  case (AnnotationBasedStrategy w)
  then show ?thesis using assms annotationBased_distinct by auto
next
  case (ASTBasedStrategy w)
  then show ?thesis using assms astBased_distinct by auto
qed

lemma strategyResults_distinct:
  "\<forall>r\<in>set (strategyResults (mapperStrategies env config) d mp).
      distinct (impactedFiles r) \<and> distinct (testFiles r)"
proof
  fix r assume "r \<in> set (strategyResults (mapperStrategies env config) d mp)"
  then obtain k s fs where
    "strategyMapChangesToFeatures env s d mp = Inr fs" and "r \<in> set fs"
    by (auto simp: strategyResults_def mapperStrategies_def split: sum.splits) metis
  then show "distinct (impactedFiles r) \<and> distinct (testFiles r)" by (rule strategy_distinct)
qed

lemma merge_results:
  "strategyResults (mapperStrategies samplePlatform mergeConfig) mergeDiff (configFeatures mergeConfig) =
     [\<lparr>featureName = ''auth'', confidence = 0.5 * 0.8, impactedFiles = [''src/auth/login.js''],
       testFiles = [''tests/auth/login.spec.js''], changeSummary = ''Changes in auth module'',
       strategyUsed = FOLDER_BASED, metadata = Map.empty\<rparr>,
      \<lparr>featureName = ''auth'', confidence = 0.5 * 0.8, impactedFiles = [''src/auth/session.js''],
       testFiles = [''tests/auth/login.spec.js''], changeSummary = ''Changes in auth module'',
       strategyUsed = FOLDER_BASED, metadata = Map.empty\<rparr>,
      \<lparr>featureName = ''auth'', confidence = 1 * 0.9, impactedFiles = [''src/auth/login.js''],
       testFiles = [''tests/auth/login.spec.js''], changeSummary = ''Changes in auth feature'',
       strategyUsed = FILE_BASED, metadata = [''owner'' \<mapsto> JString ''identity-team'']\<rparr>,
      \<lparr>featureName = ''auth'', confidence = 1 * 0.9, impactedFiles = [''src/auth/session.js''],
       testFiles = [''tests/auth/login.spec.js''], changeSummary = ''Changes in auth feature'',
       strategyUsed = FILE_BASED, metadata = [''owner'' \<mapsto> JString ''identity-team'']\<rparr>]"
  by (simp add: strategyResults_def mapperStrategies_def initializeStrategies_def
      registerStrategy_def newStrategy_def FOLDER_BASED_def FILE_BASED_def baseWeight_def
      or_default_def mergeConfig_def mergeDiff_def sampleChange_def sessionChange_def
      samplePlatform_def sampleTests_def or_empty_def resolveTestPatterns_def globAll_def js_unique_def
      set_add_def folderBasedChange_def extractFeaturesFromPath_def afterSegment_def
      findTestFiles_def testDirs_def Let_def)

text \<open>
  Claim C1. For every platform, configuration and change set, and every feature name
  that occurs among the strategy results processed by the fold, the returned list has
  exactly one feature of that name; its confidence is the maximum of the confidences of
  the results of that name, its impacted files and its test files are the duplicate-free
  unions, in order of first occurrence, of their lists, and its metadata is their
  metadata merged in processing order, a later result overwriting an earlier one.
\<close>

theorem merged_feature_of_mapper:
  assumes "n \<in> set (map featureName (strategyResults (mapperStrategies env config) d (configFeatures config)))"
  shows "\<exists>m. filter (\<lambda>f. featureName f = n) (snd (featureMapper env config (Some d))) = [m]
           \<and> confidence m = Max (set (map confidence
                 (contributing n (strategyResults (mapperStrategies env config) d (configFeatures config)))))
           \<and> impactedFiles m = js_unique (concat (map impactedFiles
                 (contributing n (strategyResults (mapperStrategies env config) d (configFeatures config)))))
           \<and> testFiles m = js_unique (concat (map testFiles
                 (contributing n (strategyResults (mapperStrategies env config) d (configFeatures config)))))
           \<and> metadata m = foldl (++) Map.empty (map metadata
                 (contributing n (strategyResults (mapperStrategies env config) d (configFeatures config))))"
  unfolding featureMapper_def
  by (rule merged_feature_fields [OF strategyResults_distinct assms])

theorem merged_feature_of_mapper_witness:
  "''auth'' \<in> set (map featureName
       (strategyResults (mapperStrategies samplePlatform mergeConfig) mergeDiff (configFeatures mergeConfig)))
   \<and> (\<exists>m. filter (\<lambda>f. featureName f = ''auth'')
              (snd (featureMapper samplePlatform mergeConfig (Some mergeDiff))) = [m]
          \<and> confidence m = 9 / 10
          \<and> impactedFiles m = [''src/auth/login.js'', ''src/auth/session.js'']
          \<and> testFiles m = [''tests/auth/login.spec.js'']
          \<and> metadata m ''owner'' = Some (JString ''identity-team''))"
proof -
  have h: "''auth'' \<in> set (map featureName
       (strategyResults (mapperStrategies samplePlatform mergeConfig) mergeDiff (configFeatures mergeConfig)))"
    by (simp add: merge_results)
  from merged_feature_of_mapper [OF h] show ?thesis using h
    by (auto simp: merge_results contributing_def js_unique_def set_add_def)
qed

subsection \<open>Confidence bounds\<close>

lemma or_default_unit: "optionalUnit a \<Longrightarrow> unitInterval (or_default a 1)"
  by (auto simp: optionalUnit_def or_default_def unitInterval_def split: option.splits)

lemma unit_mult: "unitInterval a \<Longrightarrow> unitInterval b \<Longrightarrow> unitInterval (a * b)"
  by (auto simp: unitInterval_def mult_le_one)

lemma folderBased_unit:
  "unitInterval w \<Longrightarrow> f \<in> set (folderBasedChange env w c) \<Longrightarrow> unitInterval (confidence f)"
  by (auto simp: folderBasedChange_def Let_def unitInterval_def split: if_splits)

lemma annotationBased_unit:
  "unitInterval w \<Longrightarrow> f \<in> set (annotationBasedChange env w c) \<Longrightarrow> unitInterval (confidence f)"
  by (auto simp: annotationBasedChange_def unitInterval_def split: if_splits option.splits)

lemma astBased_unit:
  "unitInterval w \<Longrightarrow> f \<in> set (astBasedChange env w c) \<Longrightarrow> unitInterval (confidence f)"
  by (auto simp: astBasedChange_def Let_def unitInterval_def split: if_splits)

lemma fileBasedMappings_unit:
  "unitInterval w \<Longrightarrow> list_all (\<lambda>(n, m). optionalUnit (mappingConfidence m)) mp \<Longrightarrow>
   fileBasedMappings env w p mp = Inr fs \<Longrightarrow> f \<in> set fs \<Longrightarrow> unitInterval (confidence f)"
proof (induction mp arbitrary: fs)
  case Nil
  then show ?case by simp
next
  case (Cons a mp)
  obtain n m where a: "a = (n, m)" by (cases a)
  from Cons.prems(3) a obtain matched rest where
    m: "matchesPatterns env p (or_empty (source_patterns m)) = Inr matched"
    and r: "fileBasedMappings env w p mp = Inr rest"
    by (auto split: sum.splits)
  have u: "unitInterval (w * or_default (mappingConfidence m) 1)"
    using Cons.prems(1,2) a by (simp add: unit_mult or_default_unit)
  have "f \<in> set rest \<or> confidence f = w * or_default (mappingConfidence m) 1"
    using Cons.prems(3,4) a m r by (auto split: if_splits)
  then show ?case using Cons.IH [OF Cons.prems(1) _ r] Cons.prems(2) u by auto
qed

lemma fileBasedChanges_unit:
  "unitInterval w \<Longrightarrow> list_all (\<lambda>(n, m). optionalUnit (mappingConfidence m)) mp \<Longrightarrow>
   fileBasedChanges env w cs mp = Inr fs \<Longrightarrow> f \<in> set fs \<Longrightarrow> unitInterval (confidence f)"
proof (induction cs arbitrary: fs)
  case Nil
  then show ?case by simp
next
  case (Cons c cs)
  from Cons.prems(3) obtain here rest where
    h: "fileBasedMappings env w (filePath c) mp = Inr here"
    and r: "fileBasedChanges env w cs mp = Inr rest" and fs: "fs = here @ rest"
    by (auto split: sum.splits)
  from Cons.prems(4) fs have "f \<in> set here \<or> f \<in> set rest" by simp
  then show ?case
    using fileBasedMappings_unit [OF Cons.prems(1,2) h] Cons.IH [OF Cons.prems(1,2) r] by blast
qed

lemma strategy_unit:
  assumes "unitInterval (weight s)"
      and "list_all (\<lambda>(n, m). optionalUnit (mappingConfidence m)) mp"
      and "strategyMapChangesToFeatures env s d mp = Inr fs" and "f \<in> set fs"
  shows "unitInterval (confidence f)"
proof (cases s)
  case (FolderBasedStrategy w)
  then show ?thesis using assms folderBased_unit by auto
next
  case (FileBasedStrategy w)
  then show ?thesis using assms fileBasedChanges_unit [of w mp env "changes d" fs f] by simp
next
  case (AnnotationBasedStrategy w)
  then show ?thesis using assms annotationBased_unit by auto
next
  case (ASTBasedStrategy w)
  then show ?thesis using assms astBased_unit by auto
qed

lemma newStrategy_unit:
  "optionalUnit (configWeight c) \<Longrightarrow> newStrategy c = Some s \<Longrightarrow> unitInterval (weight s)"
  by (auto simp: newStrategy_def baseWeight_def or_default_unit split: if_splits)

lemma registerStrategy_unit:
  assumes "optionalUnit (configWeight c)"
      and "\<forall>(k, s)\<in>set acc. unitInterval (weight s)"
  shows "\<forall>(k, s)\<in>set (registerStrategy acc c). unitInterval (weight s)"
  using assms newStrategy_unit [of c] set_map_set [of acc "strategyType c"]
  by (auto simp: registerStrategy_def split: option.splits)

lemma initialize_step_unit:
  assumes "list_all (\<lambda>c. optionalUnit (configWeight c)) cs"
      and "\<forall>(k, s)\<in>set acc. unitInterval (weight s)"
  shows "\<forall>(k, s)\<in>set (foldl registerStrategy acc cs). unitInterval (weight s)"
  using assms
proof (induction cs arbitrary: acc)
  case Nil
  then show ?case by simp
next
  case (Cons c cs)
  have "\<forall>(k, s)\<in>set (registerStrategy acc c). unitInterval (weight s)"
    using registerStrategy_unit [of c acc] Cons.prems by simp
  then show ?case using Cons.IH Cons.prems(1) by simp
qed

lemma initializeStrategies_unit:
  "list_all (\<lambda>c. optionalUnit (configWeight c)) cs \<Longrightarrow>
   (k, s) \<in> set (initializeStrategies cs) \<Longrightarrow> unitInterval (weight s)"
  using initialize_step_unit [of cs "[]"] by (auto simp: initializeStrategies_def)

lemma strategyResults_unit:
  assumes "validConfig config"
      and "f \<in> set (strategyResults (mapperStrategies env config) d (configFeatures config))"
  shows "unitInterval (confidence f)"
proof -
  from assms(2) obtain k s fs where
    ks: "(k, s) \<in> set (initializeStrategies (detectionStrategies config))"
    and r: "strategyMapChangesToFeatures env s d (configFeatures config) = Inr fs"
    and f: "f \<in> set fs"
    by (auto simp: strategyResults_def mapperStrategies_def split: sum.splits) metis
  have "unitInterval (weight s)"
    using initializeStrategies_unit [OF _ ks] assms(1) by (simp add: validConfig_def)
  then show ?thesis using strategy_unit [OF _ _ r f] assms(1) by (simp add: validConfig_def)
qed

lemma merge_unit:
  "unitInterval (confidence e) \<Longrightarrow> unitInterval (confidence f) \<Longrightarrow>
   unitInterval (confidence (mergeFeature e f))"
  by (auto simp: mergeFeature_def unitInterval_def)

lemma addFeature_unit:
  assumes "\<forall>(k, v)\<in>set m. unitInterval (confidence v)" and "unitInterval (confidence f)"
  shows "\<forall>(k, v)\<in>set (addFeature m f). unitInterval (confidence v)"
proof (cases "map_of m (featureName f)")
  case None
  then show ?thesis using assms set_map_set [of m "featureName f" f]
    by (auto simp: addFeature_def)
next
  case (Some e)
  then have "(featureName f, e) \<in> set m" by (rule map_of_SomeD)
  then have "unitInterval (confidence (mergeFeature e f))" using assms merge_unit by auto
  then show ?thesis using assms Some set_map_set [of m "featureName f" "mergeFeature e f"]
    by (auto simp: addFeature_def)
qed

lemma foldl_addFeature_unit:
  "\<forall>(k, v)\<in>set m. unitInterval (confidence v) \<Longrightarrow> \<forall>r\<in>set rs. unitInterval (confidence r) \<Longrightarrow>
   \<forall>(k, v)\<in>set (foldl addFeature m rs). unitInterval (confidence v)"
proof (induction rs arbitrary: m)
  case Nil
  then show ?case by simp
next
  case (Cons r rs)
  have "\<forall>(k, v)\<in>set (addFeature m r). unitInterval (confidence v)"
    using addFeature_unit [of m r] Cons.prems by simp
  then show ?case using Cons.IH Cons.prems(2) by simp
qed

lemma aggregate_unit:
  "\<forall>r\<in>set rs. unitInterval (confidence r) \<Longrightarrow> f \<in> set (aggregate rs) \<Longrightarrow> unitInterval (confidence f)"
  using foldl_addFeature_unit [of "[]" rs] by (auto simp: aggregate_def)

lemma set_js_sort_confidence:
  "set (js_sort (\<lambda>a b. confidence b - confidence a) xs) = set xs"
  by (simp add: js_sort_sort_key)

lemma featureMapper_unit:
  assumes "validConfig config" and "f \<in> set (snd (featureMapper env config dr))"
  shows "unitInterval (confidence f)"
proof (cases dr)
  case None
  then show ?thesis using assms(2) by (simp add: featureMapper_def mapChangesToFeatures_def)
next
  case (Some d)
  then have "f \<in> set (aggregate (strategyResults (mapperStrategies env config) d (configFeatures config)))"
    using assms(2) by (simp add: featureMapper_def mapChangesToFeatures_Some set_js_sort_confidence)
  then show ?thesis using aggregate_unit strategyResults_unit [OF assms(1)] by blast
qed

lemma analyze_featureMapping:
  "analyze env config b h opts = Inr r \<Longrightarrow>
   featureMapping r = snd (featureMapper env config (Some (diffAnalysis r)))"
  by (auto simp: analyze_def Let_def split: sum.splits prod.splits if_splits)

lemma sample_mapping:
  "map confidence (snd (featureMapper samplePlatform sampleConfig (Some sampleDiff))) = [1]"
  by (simp add: featureMapper_def mapperStrategies_def initializeStrategies_def registerStrategy_def
      newStrategy_def FOLDER_BASED_def FILE_BASED_def baseWeight_def or_default_def sampleConfig_def
      mapChangesToFeatures_def applyStrategy_def sampleDiff_def sampleChange_def samplePlatform_def
      or_empty_def resolveTestPatterns_def globAll_def js_unique_def set_add_def addFeature_def js_sort_def)

text \<open>
  Claim C3, amended. When the strategy weights and the mapping confidences of the
  configuration lie within the bounds of the schema, every impacted feature that the
  mapper returns, and so every impacted feature in the result of a run of the engine, has
  a confidence between \<open>0\<close> and \<open>1\<close>.
\<close>

theorem confidence_in_unit_interval:
  assumes "validConfig config"
  shows "(\<forall>f\<in>set (snd (featureMapper env config dr)). 0 \<le> confidence f \<and> confidence f \<le> 1)
       \<and> (\<forall>r. analyze env config b h opts = Inr r \<longrightarrow>
              (\<forall>f\<in>set (featureMapping r). 0 \<le> confidence f \<and> confidence f \<le> 1))"
  using featureMapper_unit [OF assms] analyze_featureMapping
  by (fastforce simp: unitInterval_def)

theorem confidence_in_unit_interval_witness:
  "validConfig sampleConfig
   \<and> map confidence (snd (featureMapper samplePlatform sampleConfig (Some sampleDiff))) = [1]
   \<and> list_all (\<lambda>f. 0 \<le> confidence f \<and> confidence f \<le> 1)
         (snd (featureMapper samplePlatform sampleConfig (Some sampleDiff)))"
proof -
  have v: "validConfig sampleConfig"
    by (simp add: validConfig_def sampleConfig_def optionalUnit_def unitInterval_def)
  show ?thesis
    using confidence_in_unit_interval [OF v, of samplePlatform "Some sampleDiff"] v sample_mapping
    by (simp add: list_all_iff)
qed

text \<open>
  Without the bounds the statement fails: the mapper takes the weight as the configuration
  gives it, and with the weight \<open>5\<close> the folder-based strategy reports the feature
  \<open>auth\<close> of the sample repository with confidence \<open>5 * 0.8 = 4\<close>.
\<close>

theorem confidence_above_one_counterexample:
  "map featureName (snd (featureMapper samplePlatform heavyConfig (Some sampleDiff))) = [''auth'']
   \<and> map confidence (snd (featureMapper samplePlatform heavyConfig (Some sampleDiff))) = [4]
   \<and> \<not> (4 :: real) \<le> 1"
  by (simp add: featureMapper_def mapperStrategies_def initializeStrategies_def registerStrategy_def
      newStrategy_def FOLDER_BASED_def baseWeight_def or_default_def heavyConfig_def
      mapChangesToFeatures_def applyStrategy_def sampleDiff_def sampleChange_def samplePlatform_def
      globAll_def js_unique_def set_add_def folderBasedChange_def extractFeaturesFromPath_def
      afterSegment_def findTestFiles_def testDirs_def addFeature_def js_sort_def Let_def)

subsection \<open>A configured confidence of zero\<close>

text \<open>
  Claim C4. The claim says that a matching file yields the confidence
  \<open>weight * staticConfidence\<close> also when the static confidence is \<open>0\<close>. With weight
  \<open>1/2\<close> and a mapping whose confidence is \<open>0\<close>, the file-based strategy emits the
  feature with confidence \<open>1/2\<close>, not \<open>0\<close>: \<open>mapping.confidence || 1.0\<close> replaces the
  \<open>0\<close> by \<open>1.0\<close>.
\<close>

theorem fileBased_zero_confidence:
  "minimatch samplePlatform ''src/auth/login.js'' ''src/auth/**'' = Inr True
   \<and> (\<exists>fs. strategyMapChangesToFeatures samplePlatform (FileBasedStrategy (1 / 2)) sampleDiff
              zeroConfidenceMappings = Inr fs
          \<and> map featureName fs = [''authentication'']
          \<and> map confidence fs = [1 / 2])
   \<and> (1 / 2 :: real) \<noteq> 1 / 2 * 0"
  by (simp add: samplePlatform_def sampleDiff_def sampleChange_def zeroConfidenceMappings_def
      or_empty_def or_default_def)

subsection \<open>An empty change set\<close>

lemma strategy_no_changes:
  "changes d = [] \<Longrightarrow> strategyMapChangesToFeatures env s d mp = Inr []"
  by (cases s) simp_all

lemma strategyResults_no_changes:
  "changes d = [] \<Longrightarrow> strategyResults (mapperStrategies env config) d mp = []"
  by (auto simp: strategyResults_def mapperStrategies_def strategy_no_changes)

lemma strategyFailures_no_changes:
  "changes d = [] \<Longrightarrow> strategyFailures (mapperStrategies env config) d mp = []"
  by (auto simp: strategyFailures_def mapperStrategies_def strategy_no_changes)

lemma featureMapper_no_changes:
  "changes d = [] \<Longrightarrow> featureMapper env config (Some d) = ([], [])"
  by (simp add: featureMapper_def mapChangesToFeatures_Some strategyResults_no_changes
      strategyFailures_no_changes aggregate_def js_sort_def)

text \<open>
  Claim C9. When the references are accepted and the diff analysis returns a change set
  without change records, the run of the engine returns a result, with no impacted
  feature, no warning of the mapper, no selected test and no selection reason.
\<close>

theorem empty_change_set:
  assumes "analysisRefs env b h opts = Inr (base, head)"
      and "analyzeDiff env base head = Inr d"
      and "changes d = []"
  shows "\<exists>r. analyze env config b h opts = Inr r
            \<and> featureMapping r = [] \<and> mappingDiagnostics r = []
            \<and> selectedTests (selection (testSelection r)) = []
            \<and> selectionReasons (selection (testSelection r)) = []"
  using assms by (simp add: analyze_def featureMapper_no_changes Let_def)

theorem empty_change_set_witness:
  "analysisRefs samplePlatform (Some ''main'') (Some ''main'') sampleOptions = Inr (''main'', ''main'')
   \<and> analyzeDiff samplePlatform ''main'' ''main'' = Inr emptyDiff
   \<and> changes emptyDiff = []
   \<and> (\<exists>r. analyze samplePlatform sampleConfig (Some ''main'') (Some ''main'') sampleOptions = Inr r
          \<and> featureMapping r = [] \<and> mappingDiagnostics r = []
          \<and> selectedTests (selection (testSelection r)) = []
          \<and> selectionReasons (selection (testSelection r)) = [])"
proof -
  have r: "analysisRefs samplePlatform (Some ''main'') (Some ''main'') sampleOptions = Inr (''main'', ''main'')"
    by (simp add: analysisRefs_def sampleOptions_def truthy_def)
  have d: "analyzeDiff samplePlatform ''main'' ''main'' = Inr emptyDiff"
    by (simp add: analyzeDiff_def validateRepository_def resolveRef_def samplePlatform_def emptyDiff_def)
  have c: "changes emptyDiff = []" by (simp add: emptyDiff_def)
  from empty_change_set [OF r d c, of sampleConfig] show ?thesis using r d c by simp
qed

subsection \<open>First claim wins\<close>

lemma paths_claimTest: "path ` set (claimTest f sel p) = insert p (path ` set sel)"
  by (auto simp: claimTest_def)

lemma paths_fold_claim:
  "path ` set (foldl (claimTest f) sel ms) = path ` set sel \<union> set ms"
  by (induction ms arbitrary: sel) (simp_all add: paths_claimTest)

lemma distinct_claimTest:
  "distinct (map path sel) \<Longrightarrow> distinct (map path (claimTest f sel p))"
  by (simp add: claimTest_def)

lemma distinct_fold_claim:
  "distinct (map path sel) \<Longrightarrow> distinct (map path (foldl (claimTest f) sel ms))"
  by (induction ms arbitrary: sel) (simp_all add: distinct_claimTest)

lemma member_claimTest:
  "t \<in> set (claimTest f sel p) \<Longrightarrow>
   t \<in> set sel \<or> (path t = p \<and> p \<notin> set (map path sel) \<and> entryOf f t)"
  by (auto simp: claimTest_def entryOf_def split: if_splits)

lemma member_fold_claim:
  "t \<in> set (foldl (claimTest f) sel ms) \<Longrightarrow>
   t \<in> set sel \<or> (path t \<in> set ms \<and> path t \<notin> set (map path sel) \<and> entryOf f t)"
proof (induction ms arbitrary: sel)
  case Nil
  then show ?case by simp
next
  case (Cons m ms)
  from Cons.prems have "t \<in> set (foldl (claimTest f) (claimTest f sel m) ms)" by simp
  from Cons.IH [OF this] show ?case
  proof
    assume "t \<in> set (claimTest f sel m)"
    from member_claimTest [OF this] show ?thesis by auto
  next
    assume "path t \<in> set ms \<and> path t \<notin> set (map path (claimTest f sel m)) \<and> entryOf f t"
    then show ?thesis by (simp add: paths_claimTest)
  qed
qed

lemma selectLoop_distinct:
  "selectLoop env files fs (sel, rs) = Inr (sel', rs') \<Longrightarrow> distinct (map path sel) \<Longrightarrow>
   distinct (map path sel')"
proof (induction fs arbitrary: sel rs)
  case Nil
  then show ?case by simp
next
  case (Cons f fs)
  from Cons.prems(1) obtain ms where ms: "matchTestsToFeature env files f = Inr ms"
    by (auto split: sum.splits)
  with Cons.prems(1) obtain rs1 where
    "selectLoop env files fs (foldl (claimTest f) sel ms, rs1) = Inr (sel', rs')" by simp
  from Cons.IH [OF this distinct_fold_claim [OF Cons.prems(2)]] show ?case .
qed

lemma selectLoop_paths:
  "selectLoop env files fs (sel, rs) = Inr (sel', rs') \<Longrightarrow>
   set (map path sel') = set (map path sel) \<union> {p. \<exists>f\<in>set fs. claims env files p f}"
proof (induction fs arbitrary: sel rs)
  case Nil
  then show ?case by simp
next
  case (Cons f fs)
  from Cons.prems(1) obtain ms where ms: "matchTestsToFeature env files f = Inr ms"
    by (auto split: sum.splits)
  with Cons.prems(1) obtain rs1 where
    "selectLoop env files fs (foldl (claimTest f) sel ms, rs1) = Inr (sel', rs')" by simp
  from Cons.IH [OF this] have
    "set (map path sel') = set (map path sel) \<union> set ms \<union> {p. \<exists>f\<in>set fs. claims env files p f}"
    by (simp add: paths_fold_claim)
  moreover have "set ms = {p. claims env files p f}" by (auto simp: claims_def ms)
  ultimately show ?case by auto
qed

lemma selectLoop_attributed:
  "selectLoop env files fs (sel, rs) = Inr (sel', rs') \<Longrightarrow> t \<in> set sel' \<Longrightarrow>
   t \<in> set sel \<or>
   (path t \<notin> set (map path sel)
    \<and> (\<exists>f. find (claims env files (path t)) fs = Some f \<and> entryOf f t))"
proof (induction fs arbitrary: sel rs)
  case Nil
  then show ?case by simp
next
  case (Cons f fs)
  from Cons.prems(1) obtain ms where ms: "matchTestsToFeature env files f = Inr ms"
    by (auto split: sum.splits)
  with Cons.prems(1) obtain rs1 where
    "selectLoop env files fs (foldl (claimTest f) sel ms, rs1) = Inr (sel', rs')" by simp
  from Cons.IH [OF this Cons.prems(2)] show ?case
  proof
    assume "t \<in> set (foldl (claimTest f) sel ms)"
    from member_fold_claim [OF this] show ?thesis
    proof
      assume "t \<in> set sel"
      then show ?thesis by simp
    next
      assume a: "path t \<in> set ms \<and> path t \<notin> set (map path sel) \<and> entryOf f t"
      then have "claims env files (path t) f" by (simp add: claims_def ms)
      then show ?thesis using a by simp
    qed
  next
    assume a: "path t \<notin> set (map path (foldl (claimTest f) sel ms))
      \<and> (\<exists>g. find (claims env files (path t)) fs = Some g \<and> entryOf g t)"
    then have "path t \<notin> set (map path sel)" and "path t \<notin> set ms"
      by (simp_all add: paths_fold_claim)
    then have "\<not> claims env files (path t) f" by (simp add: claims_def ms)
    then show ?thesis using a \<open>path t \<notin> set (map path sel)\<close> by simp
  qed
qed

lemma scenarioD_selection:
  "selectTests samplePlatform scenarioDTests scenarioD =
     Inr \<lparr>selectedTests =
            [\<lparr>path = ''tests/shared.spec.js'', feature = ''payments'', selectedConfidence = 0.9,
              strategy = FILE_BASED, reason = (''payments'', 90)\<rparr>,
             \<lparr>path = ''tests/other.spec.js'', feature = ''checkout'', selectedConfidence = 0.6,
              strategy = FILE_BASED, reason = (''checkout'', 60)\<rparr>],
          selectionReasons =
            [\<lparr>reasonFeature = ''payments'', reasonConfidence = 0.9, testsSelected = 1,
              reasonStrategy = FILE_BASED\<rparr>,
             \<lparr>reasonFeature = ''checkout'', reasonConfidence = 0.6, testsSelected = 2,
              reasonStrategy = FILE_BASED\<rparr>],
          summary = \<lparr>totalAvailable = 2, totalSelected = 2, reductionPercentage = Num 0\<rparr>\<rparr>"
  by (simp add: selectTests_def scenarioD_def scenarioDTests_def sampleFeature_def
      matchTestsToFeature_def matchesPattern_def globToRegex_def replaceChar_def
      samplePlatform_def js_unique_def set_add_def claimTest_def lengthRatio_def roundHalfUp_def)

text \<open>
  Claim C5. When the selection returns, no two selected entries have the same path; every
  selected entry carries the name, confidence and strategy of the first feature of the
  ranked list whose matching tests contain its path; and the selected paths are exactly
  the paths that some feature of the list matches. A later feature that matches an
  already selected path therefore adds no entry for it.
\<close>

theorem selectTests_first_claim:
  assumes "selectTests env files fs = Inr r"
  shows "distinct (map path (selectedTests r))
       \<and> (\<forall>t\<in>set (selectedTests r).
            \<exists>f. find (claims env files (path t)) fs = Some f
               \<and> feature t = featureName f \<and> selectedConfidence t = confidence f
               \<and> strategy t = strategyUsed f)
       \<and> set (map path (selectedTests r)) = {p. \<exists>f\<in>set fs. claims env files p f}"
proof -
  from assms obtain sel rs where
    l: "selectLoop env files fs ([], []) = Inr (sel, rs)" and r: "selectedTests r = sel"
    by (auto simp: selectTests_def split: sum.splits)
  have 1: "distinct (map path sel)" using selectLoop_distinct [OF l] by simp
  have 2: "\<exists>f. find (claims env files (path t)) fs = Some f
               \<and> feature t = featureName f \<and> selectedConfidence t = confidence f
               \<and> strategy t = strategyUsed f" if "t \<in> set sel" for t
    using selectLoop_attributed [OF l that] by (simp add: entryOf_def)
  have 3: "set (map path sel) = {p. \<exists>f\<in>set fs. claims env files p f}"
    using selectLoop_paths [OF l] by simp
  show ?thesis using 1 2 3 by (simp add: r)
qed

theorem selectTests_first_claim_witness:
  "(\<exists>r. selectTests samplePlatform scenarioDTests scenarioD = Inr r
       \<and> map path (selectedTests r) = [''tests/shared.spec.js'', ''tests/other.spec.js'']
       \<and> map feature (selectedTests r) = [''payments'', ''checkout'']
       \<and> distinct (map path (selectedTests r))
       \<and> (\<forall>t\<in>set (selectedTests r).
            \<exists>f. find (claims samplePlatform scenarioDTests (path t)) scenarioD = Some f
               \<and> feature t = featureName f \<and> selectedConfidence t = confidence f
               \<and> strategy t = strategyUsed f))"
  using selectTests_first_claim [OF scenarioD_selection] scenarioD_selection by simp

end
